theory Spec2Isabelle
  imports Complex_Main
begin

section \<open>Python strings and integers\<close>

text \<open>
  The identifier helpers of \<open>MediaMixin\<close> (\<open>instagrapi/mixins/media.py\<close>) work on
  Python strings and unbounded integers. A string is a list of characters; a character
  is a code point below 256. The built-ins the source calls (\<open>str\<close>, \<open>int\<close>,
  \<open>str.split\<close>, \<open>str.isdigit\<close>, slicing) are written out here, each raise as an
  \<open>Inl\<close> result.
\<close>

text \<open>
  The exceptions that can travel through the module. The classes imported from
  \<open>instagrapi.exceptions\<close> keep their names and carry the text \<open>str(e)\<close>;
  \<open>ClientError\<close> stands for an instance of \<open>ClientError\<close> or of a subclass that the
  module does not name, \<open>OtherException\<close> for any other \<open>Exception\<close> a collaborator
  raises. The remaining constructors are the built-in exceptions that the statements of
  the module itself can raise.
\<close>

datatype exn =
    ClientLoginRequired string
  | ClientNotFoundError string
  | ClientError string
  | MediaNotFound string
  | AssertionError string
  | ValueError
  | KeyError
  | IndexError
  | TypeError
  | AttributeError
  | OtherException string

text \<open>
  Modelled from the spec: \<open>instagrapi/exceptions.py\<close> is not among the sources. The
  "recognized client-level error classes" are \<open>ClientError\<close> and its subclasses; the
  module catches \<open>ClientNotFoundError\<close> before \<open>ClientError\<close>, and the login and
  not-found errors of the spec's taxonomy are client-level errors.
\<close>

fun isinstance_ClientError :: "exn \<Rightarrow> bool" where
  "isinstance_ClientError (ClientLoginRequired _) = True"
| "isinstance_ClientError (ClientNotFoundError _) = True"
| "isinstance_ClientError (ClientError _) = True"
| "isinstance_ClientError (MediaNotFound _) = True"
| "isinstance_ClientError _ = False"

fun isinstance_ClientLoginRequired :: "exn \<Rightarrow> bool" where
  "isinstance_ClientLoginRequired (ClientLoginRequired _) = True"
| "isinstance_ClientLoginRequired _ = False"

fun isinstance_ClientNotFoundError :: "exn \<Rightarrow> bool" where
  "isinstance_ClientNotFoundError (ClientNotFoundError _) = True"
| "isinstance_ClientNotFoundError _ = False"

text \<open>\<open>str(e)\<close>; the module applies it to client errors only.\<close>

fun str_exn :: "exn \<Rightarrow> string" where
  "str_exn (ClientLoginRequired m) = m"
| "str_exn (ClientNotFoundError m) = m"
| "str_exn (ClientError m) = m"
| "str_exn (MediaNotFound m) = m"
| "str_exn (AssertionError m) = m"
| "str_exn (OtherException m) = m"
| "str_exn _ = []"

subsection \<open>Characters\<close>

text \<open>
  The whitespace that \<open>int\<close> strips from both ends of its argument: the ASCII whitespace
  and, of Latin-1, NEL and the no-break space. The separators \<open>0x1C\<close> to \<open>0x1F\<close>, which
  \<open>str.isspace\<close> accepts, are not stripped: \<open>int\<close> rejects them.
\<close>

definition py_isspace :: "char \<Rightarrow> bool" where
  "py_isspace c = ((of_char c :: nat) \<in> {9, 10, 11, 12, 13, 32, 133, 160})"

definition py_isdecimal :: "char \<Rightarrow> bool" where
  "py_isdecimal c = (48 \<le> (of_char c :: nat) \<and> (of_char c :: nat) \<le> 57)"

text \<open>\<open>str.isdigit\<close> also accepts the superscript digits of Latin-1, which \<open>int\<close> rejects.\<close>

definition py_isdigit_char :: "char \<Rightarrow> bool" where
  "py_isdigit_char c = (py_isdecimal c \<or> (of_char c :: nat) \<in> {178, 179, 185})"

definition isdigit :: "string \<Rightarrow> bool" where
  "isdigit s = (s \<noteq> [] \<and> list_all py_isdigit_char s)"

definition digit_char :: "nat \<Rightarrow> char" where
  "digit_char d = char_of (48 + d)"

definition digit_val :: "char \<Rightarrow> int" where
  "digit_val c = int (of_char c) - 48"

subsection \<open>\<open>str(n)\<close> and \<open>int(s)\<close>\<close>

fun digits_of_nat :: "nat \<Rightarrow> string" where
  "digits_of_nat n =
     (if n < 10 then [digit_char n] else digits_of_nat (n div 10) @ [digit_char (n mod 10)])"

declare digits_of_nat.simps [simp del]

definition py_str_int :: "int \<Rightarrow> string" where
  "py_str_int n = (if n < 0 then CHR ''-'' # digits_of_nat (nat (- n)) else digits_of_nat (nat n))"

definition strip :: "string \<Rightarrow> string" where
  "strip s = rev (dropWhile py_isspace (rev (dropWhile py_isspace s)))"

text \<open>Decimal digits, with single underscores allowed between digits.\<close>

fun int_literal_ok :: "string \<Rightarrow> bool" where
  "int_literal_ok [] = False"
| "int_literal_ok [c] = py_isdecimal c"
| "int_literal_ok (c # d # r) =
     (py_isdecimal c \<and> (if d = CHR ''_'' then int_literal_ok r else int_literal_ok (d # r)))"

definition int_literal_val :: "string \<Rightarrow> int" where
  "int_literal_val ds = foldl (\<lambda>a c. 10 * a + digit_val c) 0 (filter (\<lambda>c. c \<noteq> CHR ''_'') ds)"

definition py_int :: "string \<Rightarrow> exn + int" where
  "py_int s =
     (let t = strip s in
      case t of
        [] \<Rightarrow> Inl ValueError
      | c # r \<Rightarrow>
          if c = CHR ''-'' then
            (if int_literal_ok r then Inr (- int_literal_val r) else Inl ValueError)
          else if c = CHR ''+'' then
            (if int_literal_ok r then Inr (int_literal_val r) else Inl ValueError)
          else (if int_literal_ok t then Inr (int_literal_val t) else Inl ValueError))"

subsection \<open>\<open>str.split\<close>\<close>

text \<open>\<open>s.split(c)\<close>: every occurrence of the separator starts a new segment.\<close>

fun py_split :: "char \<Rightarrow> string \<Rightarrow> string list" where
  "py_split c [] = [[]]"
| "py_split c (x # xs) =
     (if x = c then [] # py_split c xs
      else (case py_split c xs of [] \<Rightarrow> [[x]] | w # ws \<Rightarrow> (x # w) # ws))"

text \<open>\<open>s.split(c, 1)\<close>: at most one split, at the first occurrence.\<close>

definition py_split1 :: "char \<Rightarrow> string \<Rightarrow> string list" where
  "py_split1 c s =
     (if c \<in> set s then [takeWhile (\<lambda>x. x \<noteq> c) s, tl (dropWhile (\<lambda>x. x \<noteq> c) s)] else [s])"

text \<open>\<open>sub in s\<close> for strings.\<close>

fun starts_with :: "string \<Rightarrow> string \<Rightarrow> bool" where
  "starts_with [] s = True"
| "starts_with (p # ps) [] = False"
| "starts_with (p # ps) (c # cs) = (p = c \<and> starts_with ps cs)"

fun str_contains :: "string \<Rightarrow> string \<Rightarrow> bool" where
  "str_contains sub [] = (sub = [])"
| "str_contains sub (c # cs) = (starts_with sub (c # cs) \<or> str_contains sub cs)"

section \<open>Identifier normalisation\<close>

text \<open>
  The identifier arguments are annotated \<open>int\<close> or \<open>str\<close> and the module passes both:
  \<open>media_info\<close> receives the composite id string from \<open>media_edit\<close> and an integer from
  callers.
\<close>

datatype ident = IdInt int | IdStr string

fun py_str :: "ident \<Rightarrow> string" where
  "py_str (IdInt n) = py_str_int n"
| "py_str (IdStr s) = s"

text \<open>
  \<open>media_pk\<close> (static method). The membership test is on \<open>str(media_id)\<close>, the split on
  \<open>media_id\<close> itself; the tuple assignment \<open>media_pk, _ = ...\<close> needs exactly two
  segments and raises \<open>ValueError\<close> otherwise.
\<close>

definition media_pk :: "ident \<Rightarrow> exn + int" where
  "media_pk media_id =
     (let pk_str = py_str media_id in
      if CHR ''_'' \<in> set pk_str then
        (case media_id of
           IdInt n \<Rightarrow> Inl AttributeError
         | IdStr s \<Rightarrow>
             (case py_split (CHR ''_'') s of
                [a, b] \<Rightarrow> py_int a
              | _ \<Rightarrow> Inl ValueError))
      else py_int pk_str)"

section \<open>JSON values and the model objects\<close>

text \<open>
  What the transport returns and accepts: parsed JSON. A Python \<open>dict\<close> is an association
  list read with \<open>map_of\<close>.
\<close>

datatype json =
    JNull
  | JBool bool
  | JInt int
  | JFloat real
  | JStr string
  | JList "json list"
  | JDict "(string \<times> json) list"

text \<open>Truth value of an object in a condition (\<open>if x\<close>, \<open>not x\<close>).\<close>

fun truthy :: "json \<Rightarrow> bool" where
  "truthy JNull = False"
| "truthy (JBool b) = b"
| "truthy (JInt n) = (n \<noteq> 0)"
| "truthy (JFloat r) = (r \<noteq> 0)"
| "truthy (JStr s) = (s \<noteq> [])"
| "truthy (JList xs) = (xs \<noteq> [])"
| "truthy (JDict kvs) = (kvs \<noteq> [])"

text \<open>\<open>x.get(k)\<close>: only a dict has the method.\<close>

fun py_get :: "json \<Rightarrow> string \<Rightarrow> exn + json" where
  "py_get (JDict kvs) k = Inr (case map_of kvs k of None \<Rightarrow> JNull | Some v \<Rightarrow> v)"
| "py_get _ k = Inl AttributeError"

text \<open>\<open>x[k]\<close> with a string key.\<close>

fun py_getitem :: "json \<Rightarrow> string \<Rightarrow> exn + json" where
  "py_getitem (JDict kvs) k = (case map_of kvs k of None \<Rightarrow> Inl KeyError | Some v \<Rightarrow> Inr v)"
| "py_getitem _ k = Inl TypeError"

fun dict_update :: "string \<Rightarrow> json \<Rightarrow> (string \<times> json) list \<Rightarrow> (string \<times> json) list" where
  "dict_update k v [] = [(k, v)]"
| "dict_update k v ((k', v') # kvs) =
     (if k' = k then (k, v) # kvs else (k', v') # dict_update k v kvs)"

text \<open>\<open>x[k] = v\<close> with a string key.\<close>

fun py_setitem :: "json \<Rightarrow> string \<Rightarrow> json \<Rightarrow> exn + json" where
  "py_setitem (JDict kvs) k v = Inr (JDict (dict_update k v kvs))"
| "py_setitem _ k v = Inl TypeError"

text \<open>\<open>x.pop()\<close> with no argument.\<close>

fun py_pop :: "json \<Rightarrow> exn + json" where
  "py_pop (JList xs) = (if xs = [] then Inl IndexError else Inr (last xs))"
| "py_pop (JDict kvs) = Inl TypeError"
| "py_pop _ = Inl AttributeError"

text \<open>
  Modelled from the spec: \<open>instagrapi/types.py\<close> is not among the sources. Of
  ContentMetadata (author, caption, type classifier, ...) the module reads the author
  (\<open>user\<close>, with its \<open>pk\<close>) and the type classifier (\<open>product_type\<close>). The author is a
  nested object: \<open>'u\<close> is \<open>user_short\<close> in a value and a reference in a stored object.
\<close>

record user_short =
  u_pk :: int
  username :: string

record 'u media =
  m_pk :: int
  product_type :: string
  user :: 'u
  caption_text :: string

record usertag =
  tag_user :: user_short
  tag_x :: real
  tag_y :: real

definition media_with_user :: "'a media \<Rightarrow> 'u \<Rightarrow> 'u media" where
  "media_with_user m u =
     \<lparr>m_pk = m_pk m, product_type = product_type m, user = u, caption_text = caption_text m\<rparr>"

section \<open>Collaborators and client state\<close>

text \<open>
  The transport, the extractors, the location helpers, the id codec and the random
  generator are not part of the module: they are parameters. A collaborator that
  touches the session or the network works on a world \<open>'w\<close> of its own and may raise.
  A \<open>Location\<close> object is represented by the dictionary of its fields.
\<close>

record 'w env =
  public_graphql_request :: "json \<Rightarrow> string \<Rightarrow> 'w \<Rightarrow> (exn + json) \<times> 'w"
  private_request :: "string \<Rightarrow> json option \<Rightarrow> 'w \<Rightarrow> (exn + json) \<times> 'w"
  inject_sessionid_to_public :: "'w \<Rightarrow> bool \<times> 'w"
  location_complete :: "json \<Rightarrow> 'w \<Rightarrow> (exn + json) \<times> 'w"
  location_build :: "json option \<Rightarrow> 'w \<Rightarrow> (exn + string) \<times> 'w"
  with_default_data :: "json \<Rightarrow> 'w \<Rightarrow> json"
  with_action_data :: "json \<Rightarrow> 'w \<Rightarrow> json"
  last_json :: "'w \<Rightarrow> json"
  randint :: "int \<Rightarrow> int \<Rightarrow> 'w \<Rightarrow> int \<times> 'w"
  InstagramIdCodec_encode :: "int \<Rightarrow> exn + string"
  extract_media_gql :: "json \<Rightarrow> exn + user_short media"
  extract_media_v1 :: "json \<Rightarrow> exn + user_short media"
  extract_location :: "json \<Rightarrow> exn + json"
  location_dict :: "json \<Rightarrow> json"
  json_dumps :: "json \<Rightarrow> string"

text \<open>The calls the module makes to its collaborators, in the order it makes them.\<close>

datatype call =
    PublicGraphqlRequest json string
  | PrivateRequest string "json option"
  | InjectSessionid
  | LocationComplete json
  | LocationBuild "json option"
  | LoggerException exn

fun is_transport :: "call \<Rightarrow> bool" where
  "is_transport (PublicGraphqlRequest _ _) = True"
| "is_transport (PrivateRequest _ _) = True"
| "is_transport _ = False"

text \<open>
  The client: \<open>_medias_cache\<close> maps a primary key to a \<open>Media\<close> object, that is to a
  reference into the store of media objects; a media object refers to its user object.
  A reference is an index, and an object is created by appending to its store.
\<close>

record 'w client =
  medias_cache :: "int \<rightharpoonup> nat"
  media_objs :: "nat media list"
  user_objs :: "user_short list"
  user_id :: "int option"
  calls :: "call list"
  world :: 'w

type_synonym ('w, 'a) prog = "'w client \<Rightarrow> (exn + 'a) \<times> 'w client"

definition py_return :: "'a \<Rightarrow> ('w, 'a) prog" where
  "py_return x = (\<lambda>s. (Inr x, s))"

definition py_raise :: "exn \<Rightarrow> ('w, 'a) prog" where
  "py_raise e = (\<lambda>s. (Inl e, s))"

definition py_lift :: "exn + 'a \<Rightarrow> ('w, 'a) prog" where
  "py_lift r = (\<lambda>s. (r, s))"

definition py_bind :: "('w, 'a) prog \<Rightarrow> ('a \<Rightarrow> ('w, 'b) prog) \<Rightarrow> ('w, 'b) prog" where
  "py_bind m f = (\<lambda>s. case m s of (Inl e, s') \<Rightarrow> (Inl e, s') | (Inr a, s') \<Rightarrow> f a s')"

text \<open>\<open>try: m except Exception as e: h e\<close>.\<close>

definition py_try :: "('w, 'a) prog \<Rightarrow> (exn \<Rightarrow> ('w, 'a) prog) \<Rightarrow> ('w, 'a) prog" where
  "py_try m h = (\<lambda>s. case m s of (Inl e, s') \<Rightarrow> h e s' | (Inr a, s') \<Rightarrow> (Inr a, s'))"

definition call_public_graphql_request :: "'w env \<Rightarrow> json \<Rightarrow> string \<Rightarrow> ('w, json) prog" where
  "call_public_graphql_request env variables query_hash =
     (\<lambda>s. case public_graphql_request env variables query_hash (world s) of
        (r, w) \<Rightarrow> (r, s\<lparr>calls := calls s @ [PublicGraphqlRequest variables query_hash], world := w\<rparr>))"

definition call_private_request :: "'w env \<Rightarrow> string \<Rightarrow> json option \<Rightarrow> ('w, json) prog" where
  "call_private_request env path data =
     (\<lambda>s. case private_request env path data (world s) of
        (r, w) \<Rightarrow> (r, s\<lparr>calls := calls s @ [PrivateRequest path data], world := w\<rparr>))"

definition call_inject_sessionid_to_public :: "'w env \<Rightarrow> ('w, bool) prog" where
  "call_inject_sessionid_to_public env =
     (\<lambda>s. case inject_sessionid_to_public env (world s) of
        (b, w) \<Rightarrow> (Inr b, s\<lparr>calls := calls s @ [InjectSessionid], world := w\<rparr>))"

definition call_location_complete :: "'w env \<Rightarrow> json \<Rightarrow> ('w, json) prog" where
  "call_location_complete env loc =
     (\<lambda>s. case location_complete env loc (world s) of
        (r, w) \<Rightarrow> (r, s\<lparr>calls := calls s @ [LocationComplete loc], world := w\<rparr>))"

definition call_location_build :: "'w env \<Rightarrow> json option \<Rightarrow> ('w, string) prog" where
  "call_location_build env loc =
     (\<lambda>s. case location_build env loc (world s) of
        (r, w) \<Rightarrow> (r, s\<lparr>calls := calls s @ [LocationBuild loc], world := w\<rparr>))"

definition call_logger_exception :: "exn \<Rightarrow> ('w, unit) prog" where
  "call_logger_exception e = (\<lambda>s. (Inr (), s\<lparr>calls := calls s @ [LoggerException e]\<rparr>))"

definition call_randint :: "'w env \<Rightarrow> int \<Rightarrow> int \<Rightarrow> ('w, int) prog" where
  "call_randint env a b =
     (\<lambda>s. case randint env a b (world s) of (n, w) \<Rightarrow> (Inr n, s\<lparr>world := w\<rparr>))"

text \<open>A new \<open>Media\<close> object with its new user object, as an extractor builds it.\<close>

definition new_media :: "user_short media \<Rightarrow> ('w, nat) prog" where
  "new_media m =
     (\<lambda>s. (Inr (length (media_objs s)),
        s\<lparr>media_objs := media_objs s @ [media_with_user m (length (user_objs s))],
          user_objs := user_objs s @ [user m]\<rparr>))"

text \<open>\<open>copy.deepcopy\<close> of a media object: the object and the user object it refers to.\<close>

definition deepcopy :: "nat \<Rightarrow> ('w, nat) prog" where
  "deepcopy r =
     (\<lambda>s. let m = media_objs s ! r in
        (Inr (length (media_objs s)),
         s\<lparr>media_objs := media_objs s @ [media_with_user m (length (user_objs s))],
           user_objs := user_objs s @ [user_objs s ! user m]\<rparr>))"

text \<open>
  \<open>raise MediaNotFound(..., media_pk=media_pk, **kw)\<close>: the call itself raises
  \<open>TypeError\<close> when \<open>kw\<close> is not a mapping or repeats the keyword \<open>media_pk\<close>.
\<close>

definition new_MediaNotFound :: "string \<Rightarrow> json \<Rightarrow> exn" where
  "new_MediaNotFound msg kw =
     (case kw of
        JDict kvs \<Rightarrow> if ''media_pk'' \<in> fst ` set kvs then TypeError else MediaNotFound msg
      | _ \<Rightarrow> TypeError)"

section \<open>Metadata retrieval\<close>

definition gql_variables :: "string \<Rightarrow> json" where
  "gql_variables shortcode =
     JDict [(''shortcode'', JStr shortcode),
            (''child_comment_count'', JInt 3),
            (''fetch_comment_count'', JInt 40),
            (''parent_comment_count'', JInt 24),
            (''has_threaded_comments'', JBool False)]"

text \<open>
  \<open>media_info_gql\<close>: the authenticated-graph strategy. The location of the payload,
  when there is one, is completed and written back into the payload before extraction.
\<close>

definition media_info_gql :: "'w env \<Rightarrow> ident \<Rightarrow> ('w, nat) prog" where
  "media_info_gql env media_pk_arg =
     py_bind (py_lift (media_pk media_pk_arg)) (\<lambda>pk.
     py_bind (py_lift (InstagramIdCodec_encode env pk)) (\<lambda>shortcode.
     py_bind (call_public_graphql_request env (gql_variables shortcode)
                ''477b65a610463740ccdb83135b2014db'') (\<lambda>data.
     py_bind (py_lift (py_get data ''shortcode_media'')) (\<lambda>sm.
       if \<not> truthy sm then py_raise (new_MediaNotFound [] data)
       else
         py_bind (py_lift (py_getitem sm ''location'')) (\<lambda>loc.
         py_bind
           (if truthy loc then
              py_bind (py_lift (extract_location env loc)) (\<lambda>l.
              py_bind (call_location_complete env l) (\<lambda>l'.
              py_lift (py_setitem sm ''location'' (location_dict env l'))))
            else py_return sm) (\<lambda>sm'.
         py_bind (py_lift (extract_media_gql env sm')) new_media))))))"

text \<open>
  \<open>media_info_v1\<close>: the private-REST strategy. The handlers are tried in the order of
  the source: \<open>ClientNotFoundError\<close> first, then \<open>ClientError\<close>; any other exception
  passes through.
\<close>

definition media_info_v1 :: "'w env \<Rightarrow> ident \<Rightarrow> ('w, nat) prog" where
  "media_info_v1 env media_pk_arg =
     py_bind
       (py_try (call_private_request env (''media/'' @ py_str media_pk_arg @ ''/info/'') None)
          (\<lambda>e s.
             if isinstance_ClientNotFoundError e then
               py_raise (new_MediaNotFound (str_exn e) (last_json env (world s))) s
             else if isinstance_ClientError e then
               (if str_contains ''Media not found'' (str_exn e) then
                  py_raise (new_MediaNotFound (str_exn e) (last_json env (world s))) s
                else py_raise e s)
             else py_raise e s))
       (\<lambda>result.
     py_bind (py_lift (py_getitem result ''items'')) (\<lambda>items.
     py_bind (py_lift (py_pop items)) (\<lambda>item.
     py_bind (py_lift (extract_media_v1 env item)) new_media)))"

text \<open>\<open>self._medias_cache[media_pk] = media\<close> and \<open>self._medias_cache.pop(pk, None)\<close>.\<close>

definition cache_store :: "int \<Rightarrow> nat \<Rightarrow> ('w, unit) prog" where
  "cache_store pk r = (\<lambda>s. (Inr (), s\<lparr>medias_cache := (medias_cache s)(pk \<mapsto> r)\<rparr>))"

definition cache_pop :: "int \<Rightarrow> ('w, unit) prog" where
  "cache_pop pk = (\<lambda>s. (Inr (), s\<lparr>medias_cache := (medias_cache s)(pk := None)\<rparr>))"

text \<open>
  \<open>media_info\<close>: the cache in front of the fallback policy. The inner \<open>try\<close> handles
  \<open>ClientLoginRequired\<close> only; it is nested in the outer \<open>try\<close>, whose handler catches
  every \<open>Exception\<close> that leaves the inner statement, the re-raised one included.
\<close>

definition media_info :: "'w env \<Rightarrow> ident \<Rightarrow> bool \<Rightarrow> ('w, nat) prog" where
  "media_info env media_pk_arg use_cache =
     py_bind (py_lift (media_pk media_pk_arg)) (\<lambda>pk.
     py_bind
       (\<lambda>s. if \<not> use_cache \<or> medias_cache s pk = None then
          py_bind
            (py_try
               (py_try (media_info_gql env (IdInt pk))
                  (\<lambda>e. if isinstance_ClientLoginRequired e then
                          py_bind (call_inject_sessionid_to_public env) (\<lambda>ok.
                            if \<not> ok then py_raise e
                            else media_info_gql env (IdInt pk))
                        else py_raise e))
               (\<lambda>e.
                  py_bind (if \<not> isinstance_ClientError e then call_logger_exception e
                           else py_return ()) (\<lambda>_.
                  media_info_v1 env (IdInt pk))))
            (\<lambda>media. cache_store pk media) s
        else py_return () s) (\<lambda>_ s.
     case medias_cache s pk of
       None \<Rightarrow> py_raise KeyError s
     | Some r \<Rightarrow> deepcopy r s))"

text \<open>\<open>media_user\<close>: the author, a reference to the user object of the copy.\<close>

definition media_user :: "'w env \<Rightarrow> ident \<Rightarrow> ('w, nat) prog" where
  "media_user env media_pk_arg =
     py_bind (media_info env media_pk_arg True) (\<lambda>m s. (Inr (user (media_objs s ! m)), s))"

text \<open>\<open>media_id\<close>: the composite id; the owner is looked up when the separator is absent.\<close>

definition media_id :: "'w env \<Rightarrow> ident \<Rightarrow> ('w, string) prog" where
  "media_id env media_pk_arg =
     (let mid = py_str media_pk_arg in
      if CHR ''_'' \<notin> set mid then
        (if \<not> isdigit mid then
           py_raise (AssertionError (''media_id must been contain digits, now '' @ mid))
         else
           py_bind (media_user env (IdStr mid)) (\<lambda>u s.
             (Inr (mid @ ''_'' @ py_str_int (u_pk (user_objs s ! u))), s)))
      else py_return mid)"

section \<open>Mutating operations\<close>

text \<open>\<open>assert self.user_id, "Login required"\<close>: \<open>None\<close> and \<open>0\<close> are false.\<close>

definition logged_in :: "'w client \<Rightarrow> bool" where
  "logged_in s = (case user_id s of None \<Rightarrow> False | Some n \<Rightarrow> n \<noteq> 0)"

definition assert_user_id :: "('w, unit) prog" where
  "assert_user_id = (\<lambda>s. if logged_in s then (Inr (), s)
                          else (Inl (AssertionError ''Login required''), s))"

definition media_delete :: "'w env \<Rightarrow> ident \<Rightarrow> ('w, json) prog" where
  "media_delete env media_id_arg =
     py_bind assert_user_id (\<lambda>_.
     py_bind (media_id env media_id_arg) (\<lambda>mid.
     py_bind (\<lambda>s. call_private_request env (''media/'' @ mid @ ''/delete/'')
                (Some (with_default_data env (JDict [(''media_id'', JStr mid)]) (world s))) s)
       (\<lambda>result.
     py_bind (py_lift (media_pk (IdStr mid))) (\<lambda>pk.
     py_bind (cache_pop pk) (\<lambda>_.
     py_lift (py_get result ''did_delete''))))))"

definition newline :: char where
  "newline = CHR 0x0A"

text \<open>
  The long-form-video branch of \<open>media_edit\<close>: \<open>title, caption = caption.split("\n", 1)\<close>
  raises \<open>ValueError\<close> when there is one segment only, and the handler takes
  \<open>caption[:75]\<close> as the title.
\<close>

definition igtv_title_caption :: "string \<Rightarrow> string \<Rightarrow> string \<times> string" where
  "igtv_title_caption title caption =
     (if title = [] then
        (case py_split1 newline caption of
           [t, c] \<Rightarrow> (t, c)
         | _ \<Rightarrow> (take 75 caption, caption))
      else (title, caption))"

definition usertag_json :: "usertag \<Rightarrow> json" where
  "usertag_json tag =
     JDict [(''user_id'', JInt (u_pk (tag_user tag))),
            (''position'', JList [JFloat (tag_x tag), JFloat (tag_y tag)])]"

definition media_edit ::
  "'w env \<Rightarrow> ident \<Rightarrow> string \<Rightarrow> string \<Rightarrow> usertag list \<Rightarrow> json option \<Rightarrow> ('w, json) prog" where
  "media_edit env media_id_arg caption title usertags location =
     py_bind assert_user_id (\<lambda>_.
     py_bind (media_id env media_id_arg) (\<lambda>mid.
     py_bind (media_info env (IdStr mid) True) (\<lambda>media.
     py_bind (call_location_build env location) (\<lambda>loc s.
       let usertags' = map usertag_json usertags;
           data = JDict [(''caption_text'', JStr caption),
                         (''container_module'', JStr ''edit_media_info''),
                         (''feed_position'', JStr ''0''),
                         (''location'', JStr loc),
                         (''usertags'', JStr (json_dumps env (JDict [(''in'', JList usertags')]))),
                         (''is_carousel_bumped_post'', JStr ''false'')];
           data' = (if product_type (media_objs s ! media) = ''igtv'' then
                      (case igtv_title_caption title caption of
                         (title', caption') \<Rightarrow>
                           JDict [(''caption_text'', JStr caption'),
                                  (''title'', JStr title'),
                                  (''igtv_ads_toggled_on'', JStr ''0'')])
                    else data)
       in py_bind (py_lift (media_pk (IdStr mid))) (\<lambda>pk.
          py_bind (cache_pop pk) (\<lambda>_ s'.
            call_private_request env (''media/'' @ mid @ ''/edit_media/'')
              (Some (with_default_data env data' (world s'))) s')) s))))"

definition media_like :: "'w env \<Rightarrow> ident \<Rightarrow> bool \<Rightarrow> ('w, bool) prog" where
  "media_like env media_id_arg revert =
     py_bind assert_user_id (\<lambda>_.
     py_bind (media_id env media_id_arg) (\<lambda>mid.
     py_bind (call_randint env 0 6) (\<lambda>n.
       let data = JDict [(''inventory_source'', JStr ''media_or_ad''),
                         (''media_id'', JStr mid),
                         (''radio_type'', JStr ''wifi-none''),
                         (''is_carousel_bumped_post'', JStr ''false''),
                         (''container_module'', JStr ''feed_timeline''),
                         (''feed_position'', JStr (py_str_int n))];
           name = (if revert then ''unlike'' else ''like'')
       in py_bind (\<lambda>s. call_private_request env (''media/'' @ mid @ ''/'' @ name @ ''/'')
                     (Some (with_action_data env data (world s))) s) (\<lambda>result.
          py_bind (py_lift (py_getitem result ''status'')) (\<lambda>status.
          py_return (status = JStr ''ok''))))))"

definition media_unlike :: "'w env \<Rightarrow> ident \<Rightarrow> ('w, bool) prog" where
  "media_unlike env media_id_arg = media_like env media_id_arg True"

section \<open>Well-formed stores and a scripted transport\<close>

text \<open>
  Every reference held by the cache or by a media object points into its store. The
  empty client satisfies this and the operations keep it.
\<close>

definition wf :: "'w client \<Rightarrow> bool" where
  "wf s = ((\<forall>pk r. medias_cache s pk = Some r \<longrightarrow> r < length (media_objs s)) \<and>
           (\<forall>r < length (media_objs s). user (media_objs s ! r) < length (user_objs s)))"

text \<open>The metadata an object stands for: the media object with its user object read in.\<close>

definition media_value :: "'w client \<Rightarrow> nat \<Rightarrow> user_short media" where
  "media_value s r = media_with_user (media_objs s ! r) (user_objs s ! user (media_objs s ! r))"

text \<open>No object of \<open>s\<close> is changed in \<open>s'\<close>: the stores only grow.\<close>

definition objs_kept :: "'w client \<Rightarrow> 'w client \<Rightarrow> bool" where
  "objs_kept s s' =
     (take (length (media_objs s)) (media_objs s') = media_objs s \<and>
      take (length (user_objs s)) (user_objs s') = user_objs s)"

definition transport_count :: "'w client \<Rightarrow> nat" where
  "transport_count s = length (filter is_transport (calls s))"

text \<open>
  A mock transport for the concrete runs: each request takes the next scripted response,
  the elevation answers as scripted, the other collaborators are the simplest possible.
\<close>

record mock_world =
  gql_script :: "(exn + json) list"
  private_script :: "(exn + json) list"
  inject_ok :: bool

definition mock_extract :: "json \<Rightarrow> exn + user_short media" where
  "mock_extract j =
     (case j of
        JDict kvs \<Rightarrow>
          (case (map_of kvs ''pk'', map_of kvs ''product_type'', map_of kvs ''owner'') of
             (Some (JInt p), Some (JStr t), Some (JInt u)) \<Rightarrow>
               Inr \<lparr>m_pk = p, product_type = t, user = \<lparr>u_pk = u, username = []\<rparr>,
                    caption_text = []\<rparr>
           | _ \<Rightarrow> Inl KeyError)
      | _ \<Rightarrow> Inl TypeError)"

definition mock_env :: "mock_world env" where
  "mock_env =
     \<lparr>public_graphql_request = (\<lambda>v q w.
          case gql_script w of
            [] \<Rightarrow> (Inl (OtherException ''no response''), w)
          | r # rs \<Rightarrow> (r, w\<lparr>gql_script := rs\<rparr>)),
      private_request = (\<lambda>path data w.
          case private_script w of
            [] \<Rightarrow> (Inl (OtherException ''no response''), w)
          | r # rs \<Rightarrow> (r, w\<lparr>private_script := rs\<rparr>)),
      inject_sessionid_to_public = (\<lambda>w. (inject_ok w, w)),
      location_complete = (\<lambda>l w. (Inr l, w)),
      location_build = (\<lambda>l w. (Inr ''{}'', w)),
      with_default_data = (\<lambda>d w. d),
      with_action_data = (\<lambda>d w. d),
      last_json = (\<lambda>w. JDict []),
      randint = (\<lambda>a b w. (a, w)),
      InstagramIdCodec_encode = (\<lambda>n. Inr (py_str_int n)),
      extract_media_gql = mock_extract,
      extract_media_v1 = mock_extract,
      extract_location = Inr,
      location_dict = (\<lambda>l. l),
      json_dumps = (\<lambda>j. [])\<rparr>"

definition media_json :: "int \<Rightarrow> string \<Rightarrow> int \<Rightarrow> json" where
  "media_json p t u =
     JDict [(''pk'', JInt p), (''product_type'', JStr t), (''owner'', JInt u),
            (''location'', JNull)]"

definition gql_ok :: "int \<Rightarrow> string \<Rightarrow> int \<Rightarrow> exn + json" where
  "gql_ok p t u = Inr (JDict [(''shortcode_media'', media_json p t u)])"

definition v1_ok :: "int \<Rightarrow> string \<Rightarrow> int \<Rightarrow> exn + json" where
  "v1_ok p t u = Inr (JDict [(''items'', JList [media_json p t u])])"

definition mock_client :: "int option \<Rightarrow> (exn + json) list \<Rightarrow> (exn + json) list \<Rightarrow> bool \<Rightarrow>
    mock_world client" where
  "mock_client uid gs ps ok =
     \<lparr>medias_cache = Map.empty, media_objs = [], user_objs = [], user_id = uid, calls = [],
      world = \<lparr>gql_script = gs, private_script = ps, inject_ok = ok\<rparr>\<rparr>"

definition login_client :: "mock_world client" where
  "login_client =
     mock_client (Some 1) [Inl (ClientLoginRequired ''login_required'')] [v1_ok 5 ''feed'' 7] False"

definition unknown_client :: "mock_world client" where
  "unknown_client = mock_client (Some 1) [Inl (OtherException ''boom'')] [v1_ok 5 ''feed'' 7] False"

definition rate_limited_client :: "mock_world client" where
  "rate_limited_client =
     mock_client (Some 1) [Inl (ClientError ''rate limited'')] [v1_ok 5 ''feed'' 7] False"

definition bare_fail_client :: "mock_world client" where
  "bare_fail_client =
     mock_client (Some 1) [gql_ok 5 ''feed'' 7] [Inl (ClientError ''oops'')] False"

text \<open>
  A second environment, whose \<open>with_default_data\<close> adds a default field to the payload
  and whose \<open>location_build\<close> raises for a location it cannot resolve.
\<close>

definition defaults_env :: "mock_world env" where
  "defaults_env = mock_env
     \<lparr>location_build := (\<lambda>l w. case l of
          None \<Rightarrow> (Inr ''{}'', w)
        | Some j \<Rightarrow> (Inl (ClientError ''no such place''), w)),
      with_default_data := (\<lambda>d w. case d of
          JDict kvs \<Rightarrow> JDict ((''_uuid'', JStr ''uuid'') # kvs)
        | _ \<Rightarrow> d)\<rparr>"

definition fetch_client :: "mock_world client" where
  "fetch_client = mock_client (Some 1) [gql_ok 5 ''feed'' 7] [] False"

definition fetched_client :: "mock_world client" where
  "fetched_client = snd (media_info mock_env (IdInt 5) True fetch_client)"

definition notfound_client :: "mock_world client" where
  "notfound_client = mock_client (Some 1) [Inr (JDict [])] [v1_ok 5 ''feed'' 7] False"

definition igtv_client :: "mock_world client" where
  "igtv_client =
     mock_client (Some 1) [gql_ok 5 ''igtv'' 7] [Inr (JDict [(''status'', JStr ''ok'')])] False"

definition igtv_fetched :: "mock_world client" where
  "igtv_fetched = snd (media_info mock_env (IdStr ''5_7'') True igtv_client)"

definition igtv_built :: "mock_world client" where
  "igtv_built = snd (call_location_build mock_env None igtv_fetched)"

definition title_body :: string where
  "title_body = ''Title Line'' @ newline # ''Body text''"

definition some_usertags :: "usertag list" where
  "some_usertags = [\<lparr>tag_user = \<lparr>u_pk = 9, username = ''nine''\<rparr>, tag_x = 1 / 2, tag_y = 1 / 4\<rparr>]"

definition edit_fail_client :: "mock_world client" where
  "edit_fail_client =
     mock_client (Some 1) [gql_ok 5 ''feed'' 7, gql_ok 5 ''feed'' 7] [Inl (ClientError ''oops'')]
       False"

definition edit_fail_fetched :: "mock_world client" where
  "edit_fail_fetched = snd (media_info mock_env (IdStr ''5_7'') True edit_fail_client)"

definition edit_fail_built :: "mock_world client" where
  "edit_fail_built = snd (call_location_build mock_env None edit_fail_fetched)"

definition delete_ok_client :: "mock_world client" where
  "delete_ok_client =
     snd (media_info mock_env (IdInt 5) True
       (mock_client (Some 1) [gql_ok 5 ''feed'' 7, gql_ok 5 ''feed'' 7]
          [Inr (JDict [(''did_delete'', JBool True)])] False))"

definition delete_fail_client :: "mock_world client" where
  "delete_fail_client =
     snd (media_info mock_env (IdInt 5) True
       (mock_client (Some 1) [gql_ok 5 ''feed'' 7, gql_ok 5 ''feed'' 7]
          [Inl (ClientError ''oops'')] False))"

section \<open>Specification predicates for the proofs\<close>

text \<open>
  The statement that \<open>media_info\<close> runs on a cache miss (the nested \<open>try\<close>), named so that
  the proofs can refer to it.
\<close>

definition fallback_policy :: "'w env \<Rightarrow> int \<Rightarrow> ('w, nat) prog" where
  "fallback_policy env pk =
     py_try
       (py_try (media_info_gql env (IdInt pk))
          (\<lambda>e. if isinstance_ClientLoginRequired e then
                  py_bind (call_inject_sessionid_to_public env) (\<lambda>ok.
                    if \<not> ok then py_raise e
                    else media_info_gql env (IdInt pk))
                else py_raise e))
       (\<lambda>e.
          py_bind (if \<not> isinstance_ClientError e then call_logger_exception e
                   else py_return ()) (\<lambda>_.
          media_info_v1 env (IdInt pk)))"

text \<open>
  Properties of a program, each over every run of it: it changes no existing object,
  keeps the stores well formed, leaves the session alone and never forgets a transport
  call (\<open>keeps\<close>); it leaves the cache alone (\<open>keeps_cache\<close>); the reference it returns
  points into the store (\<open>returns_ref\<close>); it has made a transport call when it returns
  (\<open>counts\<close>), or whenever it ends (\<open>always_counts\<close>).
\<close>

definition keeps :: "('w, 'a) prog \<Rightarrow> bool" where
  "keeps m = (\<forall>s r s'. m s = (r, s') \<longrightarrow>
      objs_kept s s' \<and> (wf s \<longrightarrow> wf s') \<and> user_id s' = user_id s \<and>
      transport_count s \<le> transport_count s')"

definition keeps_cache :: "('w, 'a) prog \<Rightarrow> bool" where
  "keeps_cache m = (\<forall>s r s'. m s = (r, s') \<longrightarrow> medias_cache s' = medias_cache s)"

definition returns_ref :: "('w, nat) prog \<Rightarrow> bool" where
  "returns_ref m = (\<forall>s k s'. m s = (Inr k, s') \<longrightarrow> k < length (media_objs s'))"

definition counts :: "('w, 'a) prog \<Rightarrow> bool" where
  "counts m = (\<forall>s a s'. m s = (Inr a, s') \<longrightarrow> transport_count s < transport_count s')"

definition always_counts :: "('w, 'a) prog \<Rightarrow> bool" where
  "always_counts m = (\<forall>s r s'. m s = (r, s') \<longrightarrow> transport_count s < transport_count s')"

section \<open>Identifier properties\<close>

lemmas prog_defs = py_return_def py_raise_def py_lift_def py_bind_def py_try_def

lemma py_split_no_sep: "c \<notin> set s \<Longrightarrow> py_split c s = [s]"
  by (induction s) auto

lemma py_split_ne: "py_split c s \<noteq> []"
  by (induction s) (auto split: list.splits)

lemma py_split_length: "length (py_split c s) = Suc (count_list s c)"
  by (induction s) (auto split: list.splits simp: py_split_ne)

lemma py_split_hd: "hd (py_split c s) = takeWhile (\<lambda>x. x \<noteq> c) s"
  by (induction s) (auto split: list.splits simp: py_split_ne)

lemma py_split_append: "c \<notin> set a \<Longrightarrow> py_split c (a @ c # b) = a # py_split c b"
  by (induction a) (auto split: list.splits)

lemma count_list_0: "count_list s c = 0 \<longleftrightarrow> c \<notin> set s"
  by (induction s) auto

lemma digit_char_not_sep: "d < 10 \<Longrightarrow> digit_char d \<noteq> CHR ''_''"
proof
  assume d: "d < 10" and eq: "digit_char d = CHR ''_''"
  have "(of_char (digit_char d) :: nat) = 48 + d"
    using d by (simp add: digit_char_def)
  moreover have "(of_char (CHR ''_'') :: nat) = 95" by simp
  ultimately show False using eq d by simp
qed

lemma sep_notin_digits: "CHR ''_'' \<notin> set (digits_of_nat n)"
proof (induction n rule: digits_of_nat.induct)
  case (1 n)
  show ?case
  proof (cases "n < 10")
    case True
    then show ?thesis
      using digit_char_not_sep [of n] by (subst digits_of_nat.simps) auto
  next
    case False
    have "n mod 10 < 10" by simp
    then have "digit_char (n mod 10) \<noteq> CHR ''_''" by (rule digit_char_not_sep)
    with False 1 show ?thesis
      by (subst digits_of_nat.simps) auto
  qed
qed

lemma sep_notin_py_str_int: "CHR ''_'' \<notin> set (py_str_int n)"
  by (simp add: py_str_int_def sep_notin_digits)

lemma media_pk_composite:
  assumes "CHR ''_'' \<notin> set a"
  shows "media_pk (IdStr (a @ CHR ''_'' # py_str_int n)) = py_int a"
proof -
  have "py_split (CHR ''_'') (a @ CHR ''_'' # py_str_int n) = [a, py_str_int n]"
    using assms by (simp add: py_split_append py_split_no_sep sep_notin_py_str_int)
  then show ?thesis by (simp add: media_pk_def)
qed

lemma py_int_error: "py_int s = Inl e \<Longrightarrow> e = ValueError"
  by (auto simp: py_int_def Let_def split: list.splits if_splits)

lemma media_pk_str_cases:
  "media_pk (IdStr s) =
     (if count_list s (CHR ''_'') = 0 then py_int s
      else if count_list s (CHR ''_'') = 1 then py_int (takeWhile (\<lambda>c. c \<noteq> CHR ''_'') s)
      else Inl ValueError)"
proof -
  let ?n = "count_list s (CHR ''_'')"
  have len: "length (py_split (CHR ''_'') s) = Suc ?n" by (rule py_split_length)
  have hd: "hd (py_split (CHR ''_'') s) = takeWhile (\<lambda>c. c \<noteq> CHR ''_'') s"
    by (rule py_split_hd)
  show ?thesis
  proof (cases "?n = 0")
    case True
    then show ?thesis by (simp add: media_pk_def count_list_0)
  next
    case False
    then have mem: "CHR ''_'' \<in> set s" by (simp add: count_list_0)
    show ?thesis
    proof (cases "?n = 1")
      case True
      with len obtain a b where ab: "py_split (CHR ''_'') s = [a, b]"
        by (cases "py_split (CHR ''_'') s"; cases "tl (py_split (CHR ''_'') s)";
            cases "tl (tl (py_split (CHR ''_'') s))") auto
      with hd have "a = takeWhile (\<lambda>c. c \<noteq> CHR ''_'') s" by simp
      with ab mem True show ?thesis by (simp add: media_pk_def)
    next
      case False
      with \<open>?n \<noteq> 0\<close> len have "length (py_split (CHR ''_'') s) \<ge> 3" by simp
      then have "(case py_split (CHR ''_'') s of [a, b] \<Rightarrow> py_int a | _ \<Rightarrow> Inl ValueError)
          = Inl ValueError"
        by (auto split: list.splits)
      with mem False \<open>?n \<noteq> 0\<close> show ?thesis by (simp add: media_pk_def)
    qed
  qed
qed

text \<open>
  C7 (as amended). \<open>media_pk\<close> on a string: with no separator it parses the whole string
  as an integer; with exactly one separator it parses the segment before it; with two
  or more separators the unpacking of the split fails and it raises \<open>ValueError\<close>. Whenever
  \<open>media_pk\<close> raises on a string, what it raises is \<open>ValueError\<close>.
\<close>

theorem media_pk_segments:
  "media_pk (IdStr s) =
     (if count_list s (CHR ''_'') = 0 then py_int s
      else if count_list s (CHR ''_'') = 1 then py_int (takeWhile (\<lambda>c. c \<noteq> CHR ''_'') s)
      else Inl ValueError) \<and>
   (case media_pk (IdStr s) of Inl e \<Rightarrow> e = ValueError | Inr n \<Rightarrow> True)"
proof
  show "media_pk (IdStr s) =
     (if count_list s (CHR ''_'') = 0 then py_int s
      else if count_list s (CHR ''_'') = 1 then py_int (takeWhile (\<lambda>c. c \<noteq> CHR ''_'') s)
      else Inl ValueError)"
    by (rule media_pk_str_cases)
  show "case media_pk (IdStr s) of Inl e \<Rightarrow> e = ValueError | Inr n \<Rightarrow> True"
    by (auto simp: media_pk_str_cases split: sum.splits dest: py_int_error)
qed

lemma py_int_separator_char: "py_int [CHR 0x1C, CHR ''5''] = Inl ValueError"
  by code_simp

text \<open>
  C7 as stated fails: a string with two separators has a first segment, \<open>1\<close>, and
  \<open>media_pk\<close> raises instead of returning it.
\<close>

theorem media_pk_two_separators:
  "CHR ''_'' \<in> set ''1_2_3'' \<and> py_int (takeWhile (\<lambda>c. c \<noteq> CHR ''_'') ''1_2_3'') = Inr 1 \<and>
   media_pk (IdStr ''1_2_3'') = Inl ValueError"
  by code_simp

text \<open>
  C6. Whenever \<open>media_id\<close> accepts an identifier and returns the composite id, extracting
  the primary key from the composite id gives what extracting it from the identifier
  gives.
\<close>

theorem media_pk_media_id:
  assumes "media_id env x s = (Inr cid, s')"
  shows "media_pk (IdStr cid) = media_pk x"
proof (cases "CHR ''_'' \<in> set (py_str x)")
  case True
  with assms have cid: "cid = py_str x"
    by (simp add: media_id_def Let_def prog_defs)
  show ?thesis
  proof (cases x)
    case (IdInt n)
    with True show ?thesis by (simp add: sep_notin_py_str_int)
  next
    case (IdStr t)
    with cid show ?thesis by simp
  qed
next
  case False
  with assms obtain n where "cid = py_str x @ CHR ''_'' # py_str_int n"
    by (auto simp: media_id_def Let_def prog_defs split: if_splits prod.splits sum.splits)
  with False have "media_pk (IdStr cid) = py_int (py_str x)"
    by (simp add: media_pk_composite)
  moreover from False have "media_pk x = py_int (py_str x)"
    by (simp add: media_pk_def)
  ultimately show ?thesis by simp
qed

theorem media_pk_media_id_witness:
  "fst (media_id mock_env (IdStr ''5'') (mock_client (Some 1) [gql_ok 5 ''feed'' 7] [] False))
     = Inr ''5_7'' \<and>
   media_pk (IdStr ''5_7'') = media_pk (IdStr ''5'') \<and> media_pk (IdStr ''5'') = Inr 5"
proof -
  let ?r = "media_id mock_env (IdStr ''5'') (mock_client (Some 1) [gql_ok 5 ''feed'' 7] [] False)"
  have f: "fst ?r = Inr ''5_7''" by code_simp
  then have h: "?r = (Inr ''5_7'', snd ?r)" by (simp add: prod_eq_iff)
  have v: "media_pk (IdStr ''5'') = Inr 5" by code_simp
  from f v media_pk_media_id [OF h] show ?thesis by blast
qed

section \<open>Mutating operations without a session\<close>

text \<open>
  C8. Without an authenticated session (no user id) \<open>media_delete\<close>, \<open>media_edit\<close>,
  \<open>media_like\<close> and \<open>media_unlike\<close> raise the login assertion at once: the resulting
  client is the client they started from, cache, call log and world included.
\<close>

theorem auth_required:
  assumes "\<not> logged_in s"
  shows "media_delete env x s = (Inl (AssertionError ''Login required''), s) \<and>
         media_edit env x caption title usertags location s =
           (Inl (AssertionError ''Login required''), s) \<and>
         media_like env x revert s = (Inl (AssertionError ''Login required''), s) \<and>
         media_unlike env x s = (Inl (AssertionError ''Login required''), s)"
  using assms
  by (simp add: media_delete_def media_edit_def media_like_def media_unlike_def
      assert_user_id_def py_bind_def)

theorem auth_required_witness:
  "\<not> logged_in (mock_client None [] [] False) \<and>
   media_delete mock_env (IdStr ''5_7'') (mock_client None [] [] False) =
     (Inl (AssertionError ''Login required''), mock_client None [] [] False) \<and>
   media_edit mock_env (IdStr ''5_7'') ''a'' [] [] None (mock_client None [] [] False) =
     (Inl (AssertionError ''Login required''), mock_client None [] [] False) \<and>
   media_like mock_env (IdStr ''5_7'') False (mock_client None [] [] False) =
     (Inl (AssertionError ''Login required''), mock_client None [] [] False) \<and>
   media_unlike mock_env (IdStr ''5_7'') (mock_client None [] [] False) =
     (Inl (AssertionError ''Login required''), mock_client None [] [] False)"
proof -
  have h: "\<not> logged_in (mock_client None [] [] False)"
    by (simp add: logged_in_def mock_client_def)
  from auth_required [OF h, of mock_env "IdStr ''5_7''" "''a''" "[]" "[]" None False] h
  show ?thesis by blast
qed

section \<open>Stores, cache and call log along a run\<close>

lemma media_info_unfold:
  "media_info env x uc s =
     (case media_pk x of
        Inl e \<Rightarrow> (Inl e, s)
      | Inr pk \<Rightarrow>
          (case (if \<not> uc \<or> medias_cache s pk = None
                 then py_bind (fallback_policy env pk) (cache_store pk) s
                 else (Inr (), s)) of
             (Inl e, s1) \<Rightarrow> (Inl e, s1)
           | (Inr u, s1) \<Rightarrow>
               (case medias_cache s1 pk of
                  None \<Rightarrow> (Inl KeyError, s1)
                | Some c \<Rightarrow> deepcopy c s1)))"
  by (simp add: media_info_def fallback_policy_def py_bind_def py_lift_def py_return_def
      py_raise_def split: sum.splits prod.splits option.splits)

lemma objs_kept_refl: "objs_kept s s"
  by (simp add: objs_kept_def)

lemma take_prefix_trans:
  assumes "take (length a) b = a" and "take (length b) c = b"
  shows "take (length a) c = a"
proof -
  have "length (take (length a) b) = length a" using assms(1) by simp
  then have "length a \<le> length b" by simp
  then have "take (length a) c = take (length a) (take (length b) c)" by (simp add: min_def)
  with assms show ?thesis by simp
qed

lemma objs_kept_trans: "objs_kept a b \<Longrightarrow> objs_kept b c \<Longrightarrow> objs_kept a c"
  unfolding objs_kept_def by (meson take_prefix_trans)

lemma wf_append:
  assumes "wf s"
  shows "wf (s\<lparr>media_objs := media_objs s @ [media_with_user m (length (user_objs s))],
               user_objs := user_objs s @ [u]\<rparr>)"
  using assms
  by (auto simp: wf_def nth_append media_with_user_def less_Suc_eq)

lemma keepsI:
  assumes "\<And>s r s'. m s = (r, s') \<Longrightarrow>
      objs_kept s s' \<and> (wf s \<longrightarrow> wf s') \<and> user_id s' = user_id s \<and>
      transport_count s \<le> transport_count s'"
  shows "keeps m"
  using assms unfolding keeps_def by blast

lemma keepsD:
  assumes "keeps m" and "m s = (r, s')"
  shows "objs_kept s s'" and "wf s \<Longrightarrow> wf s'" and "user_id s' = user_id s"
    and "transport_count s \<le> transport_count s'"
  using assms unfolding keeps_def by blast+

named_theorems keeps_intros

lemma keeps_unit [keeps_intros]:
  "keeps (py_return x)" "keeps (py_raise e)" "keeps (py_lift r)"
  by (simp_all add: keeps_def prog_defs objs_kept_refl)

lemma keeps_bind [keeps_intros]:
  assumes "keeps m" and "\<And>a. keeps (f a)"
  shows "keeps (py_bind m f)"
proof (rule keepsI)
  fix s r s'
  assume run: "py_bind m f s = (r, s')"
  obtain r1 s1 where m: "m s = (r1, s1)" by (cases "m s")
  note k1 = keepsD [OF assms(1) m]
  show "objs_kept s s' \<and> (wf s \<longrightarrow> wf s') \<and> user_id s' = user_id s \<and>
      transport_count s \<le> transport_count s'"
  proof (cases r1)
    case (Inl e)
    with run m have "s' = s1" by (simp add: py_bind_def)
    with k1 show ?thesis by simp
  next
    case (Inr a)
    with run m have "f a s1 = (r, s')" by (simp add: py_bind_def)
    note k2 = keepsD [OF assms(2) this]
    from k1 k2 show ?thesis by (auto intro: objs_kept_trans)
  qed
qed

lemma keeps_try [keeps_intros]:
  assumes "keeps m" and "\<And>e. keeps (h e)"
  shows "keeps (py_try m h)"
proof (rule keepsI)
  fix s r s'
  assume run: "py_try m h s = (r, s')"
  obtain r1 s1 where m: "m s = (r1, s1)" by (cases "m s")
  note k1 = keepsD [OF assms(1) m]
  show "objs_kept s s' \<and> (wf s \<longrightarrow> wf s') \<and> user_id s' = user_id s \<and>
      transport_count s \<le> transport_count s'"
  proof (cases r1)
    case (Inr a)
    with run m have "s' = s1" by (simp add: py_try_def)
    with k1 show ?thesis by simp
  next
    case (Inl e)
    with run m have "h e s1 = (r, s')" by (simp add: py_try_def)
    note k2 = keepsD [OF assms(2) this]
    from k1 k2 show ?thesis by (auto intro: objs_kept_trans)
  qed
qed

lemma keeps_if [keeps_intros]:
  "keeps a \<Longrightarrow> keeps b \<Longrightarrow> keeps (if c then a else b)"
  by simp

lemma keeps_fix:
  assumes "\<And>s0. keeps (g s0)"
  shows "keeps (\<lambda>s. g s s)"
  using assms unfolding keeps_def by blast

lemma transport_count_append [simp]:
  "transport_count (s\<lparr>calls := calls s @ cs, world := w\<rparr>) =
     transport_count s + length (filter is_transport cs)"
  "transport_count (s\<lparr>calls := calls s @ cs\<rparr>) =
     transport_count s + length (filter is_transport cs)"
  "transport_count (s\<lparr>world := w\<rparr>) = transport_count s"
  by (simp_all add: transport_count_def)

lemma wf_calls_world [simp]:
  "wf (s\<lparr>calls := cs, world := w\<rparr>) = wf s" "wf (s\<lparr>calls := cs\<rparr>) = wf s"
  "wf (s\<lparr>world := w\<rparr>) = wf s"
  by (simp_all add: wf_def)

lemma keeps_calls [keeps_intros]:
  "keeps (call_public_graphql_request env v q)"
  "keeps (call_private_request env p d)"
  "keeps (call_inject_sessionid_to_public env)"
  "keeps (call_location_complete env l)"
  "keeps (call_location_build env lo)"
  "keeps (call_logger_exception e)"
  "keeps (call_randint env a b)"
  by (auto simp: keeps_def call_public_graphql_request_def call_private_request_def
      call_inject_sessionid_to_public_def call_location_complete_def call_location_build_def
      call_logger_exception_def call_randint_def objs_kept_def split: prod.splits)

lemma keeps_new_media [keeps_intros]: "keeps (new_media m)"
  by (auto simp: keeps_def new_media_def objs_kept_def wf_append transport_count_def)

lemma keeps_deepcopy [keeps_intros]: "keeps (deepcopy c)"
  by (auto simp: keeps_def deepcopy_def Let_def objs_kept_def wf_append transport_count_def)

lemma keeps_cache_pop [keeps_intros]: "keeps (cache_pop pk)"
  by (auto simp: keeps_def cache_pop_def objs_kept_def wf_def transport_count_def)

lemma keeps_assert [keeps_intros]: "keeps assert_user_id"
  by (auto simp: keeps_def assert_user_id_def objs_kept_def)

lemma keeps_gql [keeps_intros]: "keeps (media_info_gql env x)"
  unfolding media_info_gql_def by (intro keeps_intros)

lemma keeps_v1_handler:
  "keeps (\<lambda>s. if a then py_raise (X s) s else if b then (if c then py_raise (X s) s else py_raise e s) else py_raise e s)"
  by (simp add: keeps_def py_raise_def objs_kept_refl)

lemma keeps_v1 [keeps_intros]: "keeps (media_info_v1 env x)"
  unfolding media_info_v1_def by (intro keeps_intros keeps_v1_handler)

lemma keeps_fallback [keeps_intros]: "keeps (fallback_policy env pk)"
  unfolding fallback_policy_def by (intro keeps_intros)

lemma keeps_cacheI:
  assumes "\<And>s r s'. m s = (r, s') \<Longrightarrow> medias_cache s' = medias_cache s"
  shows "keeps_cache m"
  using assms unfolding keeps_cache_def by blast

lemma keeps_cacheD: "keeps_cache m \<Longrightarrow> m s = (r, s') \<Longrightarrow> medias_cache s' = medias_cache s"
  unfolding keeps_cache_def by blast

named_theorems cache_intros

lemma keeps_cache_unit [cache_intros]:
  "keeps_cache (py_return x)" "keeps_cache (py_raise e)" "keeps_cache (py_lift r)"
  by (simp_all add: keeps_cache_def prog_defs)

lemma keeps_cache_bind [cache_intros]:
  assumes "keeps_cache m" and "\<And>a. keeps_cache (f a)"
  shows "keeps_cache (py_bind m f)"
proof (rule keeps_cacheI)
  fix s r s'
  assume run: "py_bind m f s = (r, s')"
  obtain r1 s1 where m: "m s = (r1, s1)" by (cases "m s")
  note k1 = keeps_cacheD [OF assms(1) m]
  show "medias_cache s' = medias_cache s"
  proof (cases r1)
    case (Inl e)
    with run m have "s' = s1" by (simp add: py_bind_def)
    with k1 show ?thesis by simp
  next
    case (Inr a)
    with run m have "f a s1 = (r, s')" by (simp add: py_bind_def)
    from keeps_cacheD [OF assms(2) this] k1 show ?thesis by simp
  qed
qed

lemma keeps_cache_try [cache_intros]:
  assumes "keeps_cache m" and "\<And>e. keeps_cache (h e)"
  shows "keeps_cache (py_try m h)"
proof (rule keeps_cacheI)
  fix s r s'
  assume run: "py_try m h s = (r, s')"
  obtain r1 s1 where m: "m s = (r1, s1)" by (cases "m s")
  note k1 = keeps_cacheD [OF assms(1) m]
  show "medias_cache s' = medias_cache s"
  proof (cases r1)
    case (Inr a)
    with run m have "s' = s1" by (simp add: py_try_def)
    with k1 show ?thesis by simp
  next
    case (Inl e)
    with run m have "h e s1 = (r, s')" by (simp add: py_try_def)
    from keeps_cacheD [OF assms(2) this] k1 show ?thesis by simp
  qed
qed

lemma keeps_cache_if [cache_intros]:
  "keeps_cache a \<Longrightarrow> keeps_cache b \<Longrightarrow> keeps_cache (if c then a else b)"
  by simp

lemma keeps_cache_calls [cache_intros]:
  "keeps_cache (call_public_graphql_request env v q)"
  "keeps_cache (call_private_request env p d)"
  "keeps_cache (call_inject_sessionid_to_public env)"
  "keeps_cache (call_location_complete env l)"
  "keeps_cache (call_location_build env lo)"
  "keeps_cache (call_logger_exception e)"
  "keeps_cache (call_randint env a b)"
  "keeps_cache (new_media m)"
  "keeps_cache (deepcopy c)"
  by (auto simp: keeps_cache_def call_public_graphql_request_def call_private_request_def
      call_inject_sessionid_to_public_def call_location_complete_def call_location_build_def
      call_logger_exception_def call_randint_def new_media_def deepcopy_def Let_def
      split: prod.splits)

lemma keeps_cache_v1_handler:
  "keeps_cache (\<lambda>s. if a then py_raise (X s) s
      else if b then (if c then py_raise (X s) s else py_raise e s) else py_raise e s)"
  by (simp add: keeps_cache_def py_raise_def)

lemma keeps_cache_gql [cache_intros]: "keeps_cache (media_info_gql env x)"
  unfolding media_info_gql_def by (intro cache_intros)

lemma keeps_cache_v1 [cache_intros]: "keeps_cache (media_info_v1 env x)"
  unfolding media_info_v1_def by (intro cache_intros keeps_cache_v1_handler)

lemma keeps_cache_fallback: "keeps_cache (fallback_policy env pk)"
  unfolding fallback_policy_def by (intro cache_intros)

named_theorems ref_intros

lemma returns_ref_unit [ref_intros]:
  "returns_ref (py_raise e)" "returns_ref (new_media m)"
  by (simp_all add: returns_ref_def py_raise_def new_media_def)

lemma returns_ref_bind [ref_intros]:
  assumes "\<And>a. returns_ref (f a)"
  shows "returns_ref (py_bind m f)"
  using assms unfolding returns_ref_def py_bind_def
  by (auto split: prod.splits sum.splits)

lemma returns_ref_try [ref_intros]:
  assumes "returns_ref m" and "\<And>e. returns_ref (h e)"
  shows "returns_ref (py_try m h)"
  using assms unfolding returns_ref_def py_try_def
  by (auto split: prod.splits sum.splits)

lemma returns_ref_if [ref_intros]:
  "returns_ref a \<Longrightarrow> returns_ref b \<Longrightarrow> returns_ref (if c then a else b)"
  by simp

lemma returns_ref_v1_handler:
  "returns_ref (\<lambda>s. if a then py_raise (X s) s
      else if b then (if c then py_raise (X s) s else py_raise e s) else py_raise e s)"
  by (simp add: returns_ref_def py_raise_def)

lemma returns_ref_gql [ref_intros]: "returns_ref (media_info_gql env x)"
  unfolding media_info_gql_def by (intro ref_intros)

lemma returns_ref_v1 [ref_intros]: "returns_ref (media_info_v1 env x)"
  unfolding media_info_v1_def by (intro ref_intros)

lemma returns_ref_fallback: "returns_ref (fallback_policy env pk)"
  unfolding fallback_policy_def by (intro ref_intros)

lemma countsD: "counts m \<Longrightarrow> m s = (Inr a, s') \<Longrightarrow> transport_count s < transport_count s'"
  unfolding counts_def by blast

lemma always_countsD: "always_counts m \<Longrightarrow> m s = (r, s') \<Longrightarrow> transport_count s < transport_count s'"
  unfolding always_counts_def by blast

lemma counts_raise: "counts (py_raise e)"
  by (simp add: counts_def py_raise_def)

lemma counts_if: "counts a \<Longrightarrow> counts b \<Longrightarrow> counts (if c then a else b)"
  by simp

lemma counts_calls:
  "counts (call_public_graphql_request env v q)"
  "always_counts (call_private_request env p d)"
  by (auto simp: counts_def always_counts_def call_public_graphql_request_def
      call_private_request_def split: prod.splits)

lemma counts_bind_left:
  assumes "counts m" and "\<And>a. keeps (f a)"
  shows "counts (py_bind m f)"
  unfolding counts_def
proof (intro allI impI)
  fix s b s'
  assume run: "py_bind m f s = (Inr b, s')"
  obtain r1 s1 where m: "m s = (r1, s1)" by (cases "m s")
  with run obtain a where r1: "r1 = Inr a" and f: "f a s1 = (Inr b, s')"
    by (cases r1) (auto simp: py_bind_def)
  from countsD [OF assms(1)] m r1 have "transport_count s < transport_count s1" by blast
  with keepsD(4) [OF assms(2) f] show "transport_count s < transport_count s'" by simp
qed

lemma counts_bind_right:
  assumes "keeps m" and "\<And>a. counts (f a)"
  shows "counts (py_bind m f)"
  unfolding counts_def
proof (intro allI impI)
  fix s b s'
  assume run: "py_bind m f s = (Inr b, s')"
  obtain r1 s1 where m: "m s = (r1, s1)" by (cases "m s")
  with run obtain a where r1: "r1 = Inr a" and f: "f a s1 = (Inr b, s')"
    by (cases r1) (auto simp: py_bind_def)
  from countsD [OF assms(2) f] keepsD(4) [OF assms(1) m]
  show "transport_count s < transport_count s'" by simp
qed

lemma counts_try:
  assumes "counts m" and "keeps m" and "\<And>e. counts (h e)"
  shows "counts (py_try m h)"
  unfolding counts_def
proof (intro allI impI)
  fix s b s'
  assume run: "py_try m h s = (Inr b, s')"
  obtain r1 s1 where m: "m s = (r1, s1)" by (cases "m s")
  show "transport_count s < transport_count s'"
  proof (cases r1)
    case (Inr a)
    with run m have "m s = (Inr b, s')" by (simp add: py_try_def)
    then show ?thesis by (rule countsD [OF assms(1)])
  next
    case (Inl e)
    with run m have "h e s1 = (Inr b, s')" by (simp add: py_try_def)
    from countsD [OF assms(3) this] keepsD(4) [OF assms(2) m] show ?thesis by simp
  qed
qed

lemma always_counts_try:
  assumes "counts m" and "keeps m" and "\<And>e. always_counts (h e)"
  shows "always_counts (py_try m h)"
  unfolding always_counts_def
proof (intro allI impI)
  fix s r s'
  assume run: "py_try m h s = (r, s')"
  obtain r1 s1 where m: "m s = (r1, s1)" by (cases "m s")
  show "transport_count s < transport_count s'"
  proof (cases r1)
    case (Inr a)
    with run m have "m s = (Inr a, s')" by (simp add: py_try_def)
    then show ?thesis by (rule countsD [OF assms(1)])
  next
    case (Inl e)
    with run m have "h e s1 = (r, s')" by (simp add: py_try_def)
    from always_countsD [OF assms(3) this] keepsD(4) [OF assms(2) m] show ?thesis by simp
  qed
qed

lemma always_counts_try_left:
  assumes "always_counts m" and "\<And>e. keeps (h e)"
  shows "always_counts (py_try m h)"
  unfolding always_counts_def
proof (intro allI impI)
  fix s r s'
  assume run: "py_try m h s = (r, s')"
  obtain r1 s1 where m: "m s = (r1, s1)" by (cases "m s")
  note c = always_countsD [OF assms(1) m]
  show "transport_count s < transport_count s'"
  proof (cases r1)
    case (Inr a)
    with run m c show ?thesis by (simp add: py_try_def)
  next
    case (Inl e)
    with run m have "h e s1 = (r, s')" by (simp add: py_try_def)
    from keepsD(4) [OF assms(2) this] c show ?thesis by simp
  qed
qed

lemma always_counts_bind_left:
  assumes "always_counts m" and "\<And>a. keeps (f a)"
  shows "always_counts (py_bind m f)"
  unfolding always_counts_def
proof (intro allI impI)
  fix s r s'
  assume run: "py_bind m f s = (r, s')"
  obtain r1 s1 where m: "m s = (r1, s1)" by (cases "m s")
  note c = always_countsD [OF assms(1) m]
  show "transport_count s < transport_count s'"
  proof (cases r1)
    case (Inl e)
    with run m c show ?thesis by (simp add: py_bind_def)
  next
    case (Inr a)
    with run m have "f a s1 = (r, s')" by (simp add: py_bind_def)
    from keepsD(4) [OF assms(2) this] c show ?thesis by simp
  qed
qed

lemma counts_gql: "counts (media_info_gql env x)"
  unfolding media_info_gql_def
  apply (rule counts_bind_right, intro keeps_intros)
  apply (rule counts_bind_right, intro keeps_intros)
  apply (rule counts_bind_left, rule counts_calls)
  apply (intro keeps_intros)
  done

lemma always_counts_v1: "always_counts (media_info_v1 env x)"
  unfolding media_info_v1_def
  apply (rule always_counts_bind_left)
   apply (rule always_counts_try_left, rule counts_calls)
   apply (rule keeps_v1_handler)
  apply (intro keeps_intros)
  done

lemma always_counts_log_v1:
  "always_counts (py_bind (if \<not> isinstance_ClientError e then call_logger_exception e
                           else py_return ()) (\<lambda>_. media_info_v1 env x))"
  unfolding always_counts_def
proof (intro allI impI)
  fix s r s'
  assume run: "py_bind (if \<not> isinstance_ClientError e then call_logger_exception e
                           else py_return ()) (\<lambda>_. media_info_v1 env x) s = (r, s')"
  then obtain s1 where v1: "media_info_v1 env x s1 = (r, s')"
    and c: "transport_count s1 = transport_count s"
    by (auto simp: py_bind_def call_logger_exception_def py_return_def split: if_splits)
  from always_countsD [OF always_counts_v1 v1] c
  show "transport_count s < transport_count s'" by simp
qed

lemma always_counts_fallback: "always_counts (fallback_policy env pk)"
  unfolding fallback_policy_def
proof (rule always_counts_try)
  show "keeps (py_try (media_info_gql env (IdInt pk))
          (\<lambda>e. if isinstance_ClientLoginRequired e then
                  py_bind (call_inject_sessionid_to_public env) (\<lambda>ok.
                    if \<not> ok then py_raise e
                    else media_info_gql env (IdInt pk))
                else py_raise e))"
    by (intro keeps_intros)
  show "counts (py_try (media_info_gql env (IdInt pk))
          (\<lambda>e. if isinstance_ClientLoginRequired e then
                  py_bind (call_inject_sessionid_to_public env) (\<lambda>ok.
                    if \<not> ok then py_raise e
                    else media_info_gql env (IdInt pk))
                else py_raise e))"
    by (intro counts_try counts_gql keeps_gql counts_if counts_raise counts_bind_right
        keeps_calls)
  show "always_counts (py_bind (if \<not> isinstance_ClientError e then call_logger_exception e
                   else py_return ()) (\<lambda>_. media_info_v1 env (IdInt pk)))" for e
    by (rule always_counts_log_v1)
qed

section \<open>What \<open>media_info\<close> does to the cache and the stores\<close>

lemma wf_cache_store:
  assumes "wf s" and "m < length (media_objs s)"
  shows "wf (s\<lparr>medias_cache := (medias_cache s)(pk \<mapsto> m)\<rparr>)"
  using assms by (auto simp: wf_def)

lemma media_info_hit:
  assumes "media_pk x = Inr pk" and "medias_cache s pk = Some c"
  shows "media_info env x True s = deepcopy c s"
  using assms by (simp add: media_info_unfold)

lemma media_info_miss:
  assumes "media_pk x = Inr pk" and "\<not> uc \<or> medias_cache s pk = None"
  shows "media_info env x uc s =
     (case fallback_policy env pk s of
        (Inl e, s1) \<Rightarrow> (Inl e, s1)
      | (Inr m, s1) \<Rightarrow> deepcopy m (s1\<lparr>medias_cache := (medias_cache s1)(pk \<mapsto> m)\<rparr>))"
  using assms
  by (auto simp: media_info_unfold py_bind_def cache_store_def split: sum.splits prod.splits)

lemma media_info_Inr:
  assumes run: "media_info env x uc s = (Inr r, s')"
  obtains pk c s1 where "media_pk x = Inr pk" and "medias_cache s1 pk = Some c"
    and "deepcopy c s1 = (Inr r, s')" and "objs_kept s s1" and "wf s \<Longrightarrow> wf s1"
    and "user_id s1 = user_id s" and "transport_count s \<le> transport_count s1"
    and "uc \<Longrightarrow> medias_cache s pk \<noteq> None \<Longrightarrow> s1 = s"
proof -
  from run obtain pk where pk: "media_pk x = Inr pk"
    by (cases "media_pk x") (auto simp: media_info_unfold)
  show thesis
  proof (cases "\<not> uc \<or> medias_cache s pk = None")
    case False
    then obtain c where c: "medias_cache s pk = Some c" and uc: uc by auto
    with pk run have "deepcopy c s = (Inr r, s')" by (simp add: media_info_hit)
    with pk c show thesis
      by (intro that [of pk s c]) (simp_all add: objs_kept_refl)
  next
    case True
    obtain r0 s0 where fb: "fallback_policy env pk s = (r0, s0)"
      by (cases "fallback_policy env pk s")
    with run pk True obtain m where r0: "r0 = Inr m"
      and dc: "deepcopy m (s0\<lparr>medias_cache := (medias_cache s0)(pk \<mapsto> m)\<rparr>) = (Inr r, s')"
      by (cases r0) (auto simp: media_info_miss)
    let ?s1 = "s0\<lparr>medias_cache := (medias_cache s0)(pk \<mapsto> m)\<rparr>"
    note k = keepsD [OF keeps_fallback fb]
    have m: "m < length (media_objs s0)"
      using returns_ref_fallback fb r0 unfolding returns_ref_def by blast
    have "objs_kept s ?s1" using k(1) by (simp add: objs_kept_def)
    moreover have "wf s \<Longrightarrow> wf ?s1" using k(2) m by (simp add: wf_cache_store)
    moreover have "transport_count s \<le> transport_count ?s1"
      using k(4) by (simp add: transport_count_def)
    moreover have "user_id ?s1 = user_id s" using k(3) by simp
    ultimately show thesis
      using pk dc True by (intro that [of pk ?s1 m]) auto
  qed
qed

lemma deepcopy_result:
  assumes "deepcopy c s = (r, s')"
  shows "r = Inr (length (media_objs s))"
    and "media_objs s' = media_objs s @ [media_with_user (media_objs s ! c) (length (user_objs s))]"
    and "user_objs s' = user_objs s @ [user_objs s ! user (media_objs s ! c)]"
    and "medias_cache s' = medias_cache s" and "calls s' = calls s" and "world s' = world s"
    and "user_id s' = user_id s"
  using assms by (auto simp: deepcopy_def Let_def)

lemma media_with_user_sel [simp]:
  "user (media_with_user m u) = u" "m_pk (media_with_user m u) = m_pk m"
  "product_type (media_with_user m u) = product_type m"
  "caption_text (media_with_user m u) = caption_text m"
  by (simp_all add: media_with_user_def)

lemma media_with_user_twice [simp]:
  "media_with_user (media_with_user m u) v = media_with_user m v"
  by (simp add: media_with_user_def)

lemma deepcopy_value:
  assumes dc: "deepcopy c s = (Inr r, s')"
  shows "media_value s' r = media_value s c"
  using deepcopy_result [OF dc]
  by (simp add: media_value_def nth_append)

lemma deepcopy_value_old:
  assumes dc: "deepcopy c s = (Inr r, s')" and "wf s" and "i < length (media_objs s)"
  shows "media_value s' i = media_value s i"
  using deepcopy_result [OF dc] assms(2,3)
  by (simp add: media_value_def nth_append wf_def)

lemma keeps_media_info [keeps_intros]: "keeps (media_info env x uc)"
proof (rule keepsI)
  fix s r s'
  assume run: "media_info env x uc s = (r, s')"
  show "objs_kept s s' \<and> (wf s \<longrightarrow> wf s') \<and> user_id s' = user_id s \<and>
      transport_count s \<le> transport_count s'"
  proof (cases r)
    case (Inr k)
    with run have "media_info env x uc s = (Inr k, s')" by simp
    then obtain c s1 where dc: "deepcopy c s1 = (Inr k, s')" and "objs_kept s s1"
      and "wf s \<Longrightarrow> wf s1" and "user_id s1 = user_id s"
      and "transport_count s \<le> transport_count s1"
      by (elim media_info_Inr) blast
    with keepsD [OF keeps_deepcopy dc] show ?thesis
      by (auto intro: objs_kept_trans)
  next
    case (Inl e)
    show ?thesis
    proof (cases "media_pk x")
      case (Inl e')
      with run show ?thesis by (simp add: media_info_unfold objs_kept_refl)
    next
      case (Inr pk)
      show ?thesis
      proof (cases "\<not> uc \<or> medias_cache s pk = None")
        case False
        then obtain c where "medias_cache s pk = Some c" and uc by auto
        with Inr run have "deepcopy c s = (r, s')" by (simp add: media_info_hit)
        from keepsD [OF keeps_deepcopy this] show ?thesis by simp
      next
        case True
        obtain r0 s0 where fb: "fallback_policy env pk s = (r0, s0)"
          by (cases "fallback_policy env pk s")
        note k = keepsD [OF keeps_fallback fb]
        show ?thesis
        proof (cases r0)
          case (Inl e0)
          with run Inr True fb have "s' = s0" by (simp add: media_info_miss)
          with k show ?thesis by simp
        next
          case m: (Inr m)
          with run Inr True fb
          have "deepcopy m (s0\<lparr>medias_cache := (medias_cache s0)(pk \<mapsto> m)\<rparr>) = (r, s')"
            by (simp add: media_info_miss)
          with \<open>r = Inl e\<close> show ?thesis by (simp add: deepcopy_def Let_def)
        qed
      qed
    qed
  qed
qed

lemma keeps_media_user [keeps_intros]: "keeps (media_user env x)"
  unfolding media_user_def
  by (intro keeps_intros) (simp add: keeps_def objs_kept_refl)

lemma keeps_media_id [keeps_intros]: "keeps (media_id env x)"
  unfolding media_id_def Let_def
  by (intro keeps_intros) (simp add: keeps_def objs_kept_refl)

lemma keeps_media_delete: "keeps (media_delete env x)"
  unfolding media_delete_def
  by (intro keeps_intros keeps_fix [where g = "\<lambda>s0. call_private_request env p (d s0)" for p d])

lemma keeps_media_like: "keeps (media_like env x revert)"
  unfolding media_like_def Let_def
  by (intro keeps_intros keeps_fix [where g = "\<lambda>s0. call_private_request env p (d s0)" for p d])

lemma keeps_media_edit: "keeps (media_edit env x caption title usertags location)"
  unfolding media_edit_def Let_def
  by (intro keeps_intros
      keeps_fix [where g = "\<lambda>s0. call_private_request env p (d s0)" for p d]
      keeps_fix [where g = "\<lambda>s0. py_bind a (b s0)" for a b])

section \<open>The fallback policy\<close>

lemma login_required_is_client_error:
  "isinstance_ClientLoginRequired e \<Longrightarrow> isinstance_ClientError e"
  by (cases e) simp_all

lemma media_info_v1_calls:
  "calls (snd (media_info_v1 env y s)) =
     calls s @ [PrivateRequest (''media/'' @ py_str y @ ''/info/'') None]"
  by (auto simp: media_info_v1_def prog_defs call_private_request_def new_media_def
      split: prod.splits sum.splits)

lemma calls_store_copy:
  "calls (snd (case r of
        (Inl e, s1) \<Rightarrow> (Inl e, s1)
      | (Inr m, s1) \<Rightarrow> deepcopy m (s1\<lparr>medias_cache := (medias_cache s1)(pk \<mapsto> m)\<rparr>))) =
   calls (snd r)"
  by (auto simp: deepcopy_def Let_def split: prod.splits sum.splits)

lemma fallback_after_error:
  assumes "py_try (media_info_gql env (IdInt pk))
             (\<lambda>e. if isinstance_ClientLoginRequired e then
                     py_bind (call_inject_sessionid_to_public env) (\<lambda>ok.
                       if \<not> ok then py_raise e
                       else media_info_gql env (IdInt pk))
                   else py_raise e) s = (Inl e, s1)"
  shows "fallback_policy env pk s =
           media_info_v1 env (IdInt pk)
             (if isinstance_ClientError e then s1
              else s1\<lparr>calls := calls s1 @ [LoggerException e]\<rparr>)"
  using assms
  by (simp add: fallback_policy_def py_try_def [of "py_try a b" for a b] py_bind_def
      py_return_def call_logger_exception_def)

text \<open>
  C1 (as amended). When the authenticated-graph strategy fails with the login error and
  the session elevation reports failure, the error is raised again inside the outer
  \<open>try\<close>, whose handler catches it: nothing is logged (it is a client error) and the
  private-REST strategy \<open>media_info_v1\<close> runs next, from the state the elevation left.
  \<open>media_info\<close> ends as that strategy ends: with its error, or with its result stored in
  the cache and copied.
\<close>

theorem login_required_falls_back:
  assumes pk: "media_pk x = Inr pk" and miss: "\<not> uc \<or> medias_cache s pk = None"
    and gql: "media_info_gql env (IdInt pk) s = (Inl e, s1)"
    and lr: "isinstance_ClientLoginRequired e"
    and inj: "call_inject_sessionid_to_public env s1 = (Inr False, s2)"
  shows "media_info env x uc s =
           (case media_info_v1 env (IdInt pk) s2 of
              (Inl e', s3) \<Rightarrow> (Inl e', s3)
            | (Inr m, s3) \<Rightarrow> deepcopy m (s3\<lparr>medias_cache := (medias_cache s3)(pk \<mapsto> m)\<rparr>)) \<and>
         calls (snd (media_info env x uc s)) =
           calls s2 @ [PrivateRequest (''media/'' @ py_str_int pk @ ''/info/'') None]"
proof -
  have "py_try (media_info_gql env (IdInt pk))
             (\<lambda>e. if isinstance_ClientLoginRequired e then
                     py_bind (call_inject_sessionid_to_public env) (\<lambda>ok.
                       if \<not> ok then py_raise e
                       else media_info_gql env (IdInt pk))
                   else py_raise e) s = (Inl e, s2)"
    using gql lr inj by (simp add: py_try_def py_bind_def py_raise_def)
  then have "fallback_policy env pk s = media_info_v1 env (IdInt pk) s2"
    using login_required_is_client_error [OF lr] by (simp add: fallback_after_error)
  with pk miss have eq: "media_info env x uc s =
           (case media_info_v1 env (IdInt pk) s2 of
              (Inl e', s3) \<Rightarrow> (Inl e', s3)
            | (Inr m, s3) \<Rightarrow> deepcopy m (s3\<lparr>medias_cache := (medias_cache s3)(pk \<mapsto> m)\<rparr>))"
    by (simp add: media_info_miss)
  show ?thesis
    by (rule conjI [OF eq]) (simp only: eq calls_store_copy media_info_v1_calls py_str.simps)
qed

text \<open>
  C1 as stated fails: with the login error from the graph strategy and a failed
  elevation, \<open>media_info\<close> returns metadata, and the private request is in the call log.
\<close>

theorem login_required_not_reraised:
  "fst (media_info_gql mock_env (IdInt 5) login_client) =
     Inl (ClientLoginRequired ''login_required'') \<and>
   fst (call_inject_sessionid_to_public mock_env
          (snd (media_info_gql mock_env (IdInt 5) login_client))) = Inr False \<and>
   fst (media_info mock_env (IdInt 5) True login_client) = Inr 1 \<and>
   calls (snd (media_info mock_env (IdInt 5) True login_client)) =
     [PublicGraphqlRequest (gql_variables ''5'') ''477b65a610463740ccdb83135b2014db'',
      InjectSessionid, PrivateRequest ''media/5/info/'' None]"
  by code_simp

theorem login_required_falls_back_witness:
  "media_pk (IdInt 5) = Inr 5 \<and> medias_cache login_client 5 = None \<and>
   fst (media_info_gql mock_env (IdInt 5) login_client) =
     Inl (ClientLoginRequired ''login_required'') \<and>
   isinstance_ClientLoginRequired (ClientLoginRequired ''login_required'') \<and>
   fst (call_inject_sessionid_to_public mock_env
          (snd (media_info_gql mock_env (IdInt 5) login_client))) = Inr False \<and>
   calls (snd (media_info mock_env (IdInt 5) True login_client)) =
     calls (snd (call_inject_sessionid_to_public mock_env
          (snd (media_info_gql mock_env (IdInt 5) login_client)))) @
       [PrivateRequest (''media/'' @ py_str_int 5 @ ''/info/'') None]"
proof -
  let ?g = "media_info_gql mock_env (IdInt 5) login_client"
  let ?i = "call_inject_sessionid_to_public mock_env (snd ?g)"
  have pk: "media_pk (IdInt 5) = Inr 5" by code_simp
  have miss: "medias_cache login_client 5 = None" by code_simp
  have g: "fst ?g = Inl (ClientLoginRequired ''login_required'')" by code_simp
  have i: "fst ?i = Inr False" by code_simp
  have lr: "isinstance_ClientLoginRequired (ClientLoginRequired ''login_required'')" by simp
  from g have g': "?g = (Inl (ClientLoginRequired ''login_required''), snd ?g)"
    by (simp add: prod_eq_iff)
  from i have i': "?i = (Inr False, snd ?i)" by (simp add: prod_eq_iff)
  from login_required_falls_back [OF pk disjI2 [OF miss] g' lr i', where uc = True]
  have "calls (snd (media_info mock_env (IdInt 5) True login_client)) =
     calls (snd ?i) @ [PrivateRequest (''media/'' @ py_str_int 5 @ ''/info/'') None]"
    by (rule conjunct2)
  with pk miss g lr i show ?thesis by blast
qed

text \<open>
  C3 (as amended). When the authenticated-graph strategy fails with an error other than
  the login error, or when its retry after a successful elevation fails with any error,
  the private-REST strategy \<open>media_info_v1\<close> runs next, whatever the error: an error that
  is not a client error is handed to the logger first; a client error is neither logged
  nor raised again, it is dropped. \<open>media_info\<close> ends as the private-REST strategy ends.
\<close>

theorem other_errors_fall_back:
  assumes pk: "media_pk x = Inr pk" and miss: "\<not> uc \<or> medias_cache s pk = None"
    and fail: "(media_info_gql env (IdInt pk) s = (Inl e, s1) \<and>
                  \<not> isinstance_ClientLoginRequired e) \<or>
               (\<exists>e0 s0 s0'. media_info_gql env (IdInt pk) s = (Inl e0, s0) \<and>
                  isinstance_ClientLoginRequired e0 \<and>
                  call_inject_sessionid_to_public env s0 = (Inr True, s0') \<and>
                  media_info_gql env (IdInt pk) s0' = (Inl e, s1))"
  shows "media_info env x uc s =
           (case media_info_v1 env (IdInt pk)
                   (if isinstance_ClientError e then s1
                    else s1\<lparr>calls := calls s1 @ [LoggerException e]\<rparr>) of
              (Inl e', s3) \<Rightarrow> (Inl e', s3)
            | (Inr m, s3) \<Rightarrow> deepcopy m (s3\<lparr>medias_cache := (medias_cache s3)(pk \<mapsto> m)\<rparr>)) \<and>
         calls (snd (media_info env x uc s)) =
           calls s1 @ (if isinstance_ClientError e then [] else [LoggerException e]) @
             [PrivateRequest (''media/'' @ py_str_int pk @ ''/info/'') None]"
proof -
  have "py_try (media_info_gql env (IdInt pk))
             (\<lambda>e. if isinstance_ClientLoginRequired e then
                     py_bind (call_inject_sessionid_to_public env) (\<lambda>ok.
                       if \<not> ok then py_raise e
                       else media_info_gql env (IdInt pk))
                   else py_raise e) s = (Inl e, s1)"
    using fail by (auto simp: py_try_def py_bind_def py_raise_def)
  then have fb: "fallback_policy env pk s =
           media_info_v1 env (IdInt pk)
             (if isinstance_ClientError e then s1
              else s1\<lparr>calls := calls s1 @ [LoggerException e]\<rparr>)"
    by (rule fallback_after_error)
  with pk miss have eq: "media_info env x uc s =
           (case media_info_v1 env (IdInt pk)
                   (if isinstance_ClientError e then s1
                    else s1\<lparr>calls := calls s1 @ [LoggerException e]\<rparr>) of
              (Inl e', s3) \<Rightarrow> (Inl e', s3)
            | (Inr m, s3) \<Rightarrow> deepcopy m (s3\<lparr>medias_cache := (medias_cache s3)(pk \<mapsto> m)\<rparr>))"
    by (simp add: media_info_miss)
  have "calls (snd (media_info env x uc s)) =
      calls (if isinstance_ClientError e then s1
              else s1\<lparr>calls := calls s1 @ [LoggerException e]\<rparr>) @
        [PrivateRequest (''media/'' @ py_str_int pk @ ''/info/'') None]"
    by (simp only: eq calls_store_copy media_info_v1_calls py_str.simps)
  then have "calls (snd (media_info env x uc s)) =
           calls s1 @ (if isinstance_ClientError e then [] else [LoggerException e]) @
             [PrivateRequest (''media/'' @ py_str_int pk @ ''/info/'') None]"
    by (simp split: if_splits)
  with eq show ?thesis by blast
qed

theorem other_errors_fall_back_witness:
  "media_pk (IdInt 5) = Inr 5 \<and> medias_cache unknown_client 5 = None \<and>
   fst (media_info_gql mock_env (IdInt 5) unknown_client) = Inl (OtherException ''boom'') \<and>
   \<not> isinstance_ClientLoginRequired (OtherException ''boom'') \<and>
   calls (snd (media_info mock_env (IdInt 5) True unknown_client)) =
     calls (snd (media_info_gql mock_env (IdInt 5) unknown_client)) @
       (if isinstance_ClientError (OtherException ''boom'') then []
        else [LoggerException (OtherException ''boom'')]) @
       [PrivateRequest (''media/'' @ py_str_int 5 @ ''/info/'') None] \<and>
   calls (snd (media_info mock_env (IdInt 5) True unknown_client)) =
     [PublicGraphqlRequest (gql_variables ''5'') ''477b65a610463740ccdb83135b2014db'',
      LoggerException (OtherException ''boom''), PrivateRequest ''media/5/info/'' None] \<and>
   fst (media_info mock_env (IdInt 5) True unknown_client) = Inr 1"
proof -
  let ?g = "media_info_gql mock_env (IdInt 5) unknown_client"
  have pk: "media_pk (IdInt 5) = Inr 5" by code_simp
  have miss: "medias_cache unknown_client 5 = None" by code_simp
  have g: "fst ?g = Inl (OtherException ''boom'')" by code_simp
  have nlr: "\<not> isinstance_ClientLoginRequired (OtherException ''boom'')" by simp
  from g have g': "?g = (Inl (OtherException ''boom''), snd ?g)"
    by (simp add: prod_eq_iff)
  have c: "calls (snd (media_info mock_env (IdInt 5) True unknown_client)) =
     [PublicGraphqlRequest (gql_variables ''5'') ''477b65a610463740ccdb83135b2014db'',
      LoggerException (OtherException ''boom''), PrivateRequest ''media/5/info/'' None]"
    by code_simp
  have r: "fst (media_info mock_env (IdInt 5) True unknown_client) = Inr 1" by code_simp
  from other_errors_fall_back [OF pk disjI2 [OF miss] disjI1 [OF conjI [OF g' nlr]],
      where uc = True]
  have "calls (snd (media_info mock_env (IdInt 5) True unknown_client)) =
     calls (snd ?g) @
       (if isinstance_ClientError (OtherException ''boom'') then []
        else [LoggerException (OtherException ''boom'')]) @
       [PrivateRequest (''media/'' @ py_str_int 5 @ ''/info/'') None]"
    by (rule conjunct2)
  with pk miss g nlr c r show ?thesis by blast
qed

text \<open>
  C3 as stated fails where it says that no error is silently discarded: a client error
  from the graph strategy leaves no trace when the private-REST strategy answers. The
  call succeeds and the call log holds the two requests and no logger call.
\<close>

theorem client_error_dropped_unlogged:
  "fst (media_info_gql mock_env (IdInt 5) rate_limited_client) =
     Inl (ClientError ''rate limited'') \<and>
   isinstance_ClientError (ClientError ''rate limited'') \<and>
   fst (media_info mock_env (IdInt 5) True rate_limited_client) = Inr 1 \<and>
   calls (snd (media_info mock_env (IdInt 5) True rate_limited_client)) =
     [PublicGraphqlRequest (gql_variables ''5'') ''477b65a610463740ccdb83135b2014db'',
      PrivateRequest ''media/5/info/'' None]"
  by code_simp

section \<open>Reading through the cache\<close>

lemma wf_mock_client: "wf (mock_client uid gs ps ok)"
  by (simp add: wf_def mock_client_def)

lemma value_kept:
  assumes "wf s" and "objs_kept s s'" and "c < length (media_objs s)"
  shows "media_value s' c = media_value s c"
proof -
  let ?n = "length (media_objs s)" and ?k = "length (user_objs s)"
  from assms(2) have m: "take ?n (media_objs s') = media_objs s"
    and u: "take ?k (user_objs s') = user_objs s" by (simp_all add: objs_kept_def)
  have "media_objs s ! c = take ?n (media_objs s') ! c" by (simp add: m)
  also have "\<dots> = media_objs s' ! c" using assms(3) by simp
  finally have mc: "media_objs s' ! c = media_objs s ! c" by simp
  from assms(1,3) have lt: "user (media_objs s ! c) < ?k" by (simp add: wf_def)
  have "user_objs s ! user (media_objs s ! c) = take ?k (user_objs s') ! user (media_objs s ! c)"
    by (simp add: u)
  also have "\<dots> = user_objs s' ! user (media_objs s ! c)" using lt by simp
  finally show ?thesis by (simp add: media_value_def mc)
qed

text \<open>
  C4 (as amended). After a successful \<open>media_info(x, use_cache=True)\<close>, a second call with
  no call in between makes no call to any collaborator: the call log, the world and the
  cache are as the first call left them, so the transport invocations of both calls
  together are those of the first call alone. The second call returns a copy of the
  cached metadata, equal to what the first call returned.
\<close>

theorem second_info_from_cache:
  assumes wf: "wf s" and first: "media_info env x True s = (Inr r1, s1)"
  shows "\<exists>r2 s2. media_info env x True s1 = (Inr r2, s2) \<and>
           calls s2 = calls s1 \<and> world s2 = world s1 \<and>
           transport_count s2 = transport_count s1 \<and>
           medias_cache s2 = medias_cache s1 \<and>
           media_value s2 r2 = media_value s1 r1 \<and>
           (\<exists>pk c. media_pk x = Inr pk \<and> medias_cache s1 pk = Some c \<and>
              media_value s2 r2 = media_value s1 c)"
proof -
  from first obtain pk c s0 where pk: "media_pk x = Inr pk"
    and c0: "medias_cache s0 pk = Some c" and dc1: "deepcopy c s0 = (Inr r1, s1)"
    and wf0: "wf s0"
    using wf by (elim media_info_Inr) blast
  note d1 = deepcopy_result [OF dc1]
  from c0 d1(4) have c1: "medias_cache s1 pk = Some c" by simp
  obtain r2 s2 where dc2: "deepcopy c s1 = (Inr r2, s2)"
    by (simp add: deepcopy_def Let_def)
  with pk c1 have second: "media_info env x True s1 = (Inr r2, s2)"
    by (simp add: media_info_hit)
  note d2 = deepcopy_result [OF dc2]
  from wf0 c0 have c_lt: "c < length (media_objs s0)" by (auto simp: wf_def)
  have "media_value s1 r1 = media_value s0 c" by (rule deepcopy_value [OF dc1])
  moreover have "media_value s1 c = media_value s0 c"
    by (rule deepcopy_value_old [OF dc1 wf0 c_lt])
  moreover have "media_value s2 r2 = media_value s1 c" by (rule deepcopy_value [OF dc2])
  ultimately have vals: "media_value s2 r2 = media_value s1 r1"
    "media_value s2 r2 = media_value s1 c" by simp_all
  from second d2 vals pk c1 show ?thesis
    by (auto simp: transport_count_def)
qed

theorem second_info_from_cache_witness:
  "wf fetch_client \<and> fst (media_info mock_env (IdInt 5) True fetch_client) = Inr 1 \<and>
   (\<exists>r2 s2. media_info mock_env (IdInt 5) True fetched_client = (Inr r2, s2) \<and>
           calls s2 = calls fetched_client \<and> world s2 = world fetched_client \<and>
           transport_count s2 = transport_count fetched_client \<and>
           medias_cache s2 = medias_cache fetched_client \<and>
           media_value s2 r2 = media_value fetched_client 1 \<and>
           (\<exists>pk c. media_pk (IdInt 5) = Inr pk \<and> medias_cache fetched_client pk = Some c \<and>
              media_value s2 r2 = media_value fetched_client c)) \<and>
   transport_count fetched_client = 1 \<and>
   transport_count (snd (media_info mock_env (IdInt 5) True fetched_client)) = 1"
proof -
  have w: "wf fetch_client" by (simp add: fetch_client_def wf_mock_client)
  have f: "fst (media_info mock_env (IdInt 5) True fetch_client) = Inr 1" by code_simp
  then have f': "media_info mock_env (IdInt 5) True fetch_client = (Inr 1, fetched_client)"
    by (simp add: prod_eq_iff fetched_client_def)
  have t1: "transport_count fetched_client = 1" by code_simp
  have t2: "transport_count (snd (media_info mock_env (IdInt 5) True fetched_client)) = 1"
    by code_simp
  from second_info_from_cache [OF w f'] w f t1 t2 show ?thesis by blast
qed

text \<open>
  C4 as stated fails in its count: when the graph strategy finds no payload and the
  private-REST strategy answers, two successive calls succeed and the transport has been
  invoked twice, both times by the first call.
\<close>

theorem two_calls_two_invocations:
  "fst (media_info mock_env (IdInt 5) True notfound_client) = Inr 1 \<and>
   fst (media_info mock_env (IdInt 5) True
          (snd (media_info mock_env (IdInt 5) True notfound_client))) = Inr 2 \<and>
   transport_count notfound_client = 0 \<and>
   transport_count (snd (media_info mock_env (IdInt 5) True notfound_client)) = 2 \<and>
   transport_count (snd (media_info mock_env (IdInt 5) True
          (snd (media_info mock_env (IdInt 5) True notfound_client)))) = 2"
  by code_simp

text \<open>
  C5. A successful \<open>media_info\<close> returns an object other than the cached one, with a user
  object other than the cached one's, standing for the same metadata; overwriting the
  returned object or its user object leaves the cached entry's metadata as it was. No
  operation of the module changes an object that exists: \<open>media_info\<close>, \<open>media_delete\<close>,
  \<open>media_edit\<close> and \<open>media_like\<close> only add objects, and replace or remove cache entries.
\<close>

theorem media_info_returns_copy:
  assumes wf: "wf s" and run: "media_info env x uc s = (Inr r, s')"
  shows "(\<exists>pk c. media_pk x = Inr pk \<and> medias_cache s' pk = Some c \<and>
            r \<noteq> c \<and> user (media_objs s' ! r) \<noteq> user (media_objs s' ! c) \<and>
            media_value s' r = media_value s' c \<and>
            (\<forall>v. media_value (s'\<lparr>media_objs := (media_objs s')[r := v]\<rparr>) c =
                   media_value s' c) \<and>
            (\<forall>u. media_value (s'\<lparr>user_objs := (user_objs s')[user (media_objs s' ! r) := u]\<rparr>) c
                   = media_value s' c)) \<and>
         wf s' \<and> objs_kept s s' \<and>
         (\<forall>pk c. medias_cache s pk = Some c \<longrightarrow> media_value s' c = media_value s c) \<and>
         objs_kept s (snd (media_delete env y s)) \<and>
         objs_kept s (snd (media_edit env y caption title usertags location s)) \<and>
         objs_kept s (snd (media_like env y revert s))"
proof -
  from run obtain pk c s1 where pk: "media_pk x = Inr pk"
    and c1: "medias_cache s1 pk = Some c" and dc: "deepcopy c s1 = (Inr r, s')"
    and wf1: "wf s1"
    using wf by (elim media_info_Inr) blast
  note d = deepcopy_result [OF dc]
  from wf1 c1 have c_lt: "c < length (media_objs s1)" by (auto simp: wf_def)
  with wf1 have u_lt: "user (media_objs s1 ! c) < length (user_objs s1)" by (simp add: wf_def)
  from d(1) have r: "r = length (media_objs s1)" by simp
  have oc: "media_objs s' ! c = media_objs s1 ! c" using d(2) c_lt by (simp add: nth_append)
  have orr: "media_objs s' ! r = media_with_user (media_objs s1 ! c) (length (user_objs s1))"
    using d(2) r by simp
  have 1: "medias_cache s' pk = Some c" using c1 d(4) by simp
  have 2: "r \<noteq> c" using r c_lt by simp
  have 3: "user (media_objs s' ! r) \<noteq> user (media_objs s' ! c)"
    using oc orr u_lt by simp
  have "media_value s' r = media_value s1 c" by (rule deepcopy_value [OF dc])
  moreover have "media_value s' c = media_value s1 c"
    by (rule deepcopy_value_old [OF dc wf1 c_lt])
  ultimately have 4: "media_value s' r = media_value s' c" by simp
  have 5: "media_value (s'\<lparr>media_objs := (media_objs s')[r := v]\<rparr>) c = media_value s' c" for v
    using 2 by (simp add: media_value_def)
  have 6: "media_value (s'\<lparr>user_objs := (user_objs s')[user (media_objs s' ! r) := u]\<rparr>) c
      = media_value s' c" for u
    using 3 by (simp add: media_value_def)
  note k = keepsD [OF keeps_media_info run]
  have 7: "media_value s' c' = media_value s c'" if "medias_cache s pk' = Some c'" for pk' c'
  proof -
    from wf that have "c' < length (media_objs s)" by (auto simp: wf_def)
    with wf k(1) show ?thesis by (rule value_kept)
  qed
  have 8: "objs_kept s (snd (media_delete env y s))"
    by (rule keepsD(1) [OF keeps_media_delete]) (rule surjective_pairing)
  have 9: "objs_kept s (snd (media_edit env y caption title usertags location s))"
    by (rule keepsD(1) [OF keeps_media_edit]) (rule surjective_pairing)
  have 10: "objs_kept s (snd (media_like env y revert s))"
    by (rule keepsD(1) [OF keeps_media_like]) (rule surjective_pairing)
  from pk 1 2 3 4 5 6 7 8 9 10 k(1) k(2) [OF wf] show ?thesis by blast
qed

theorem media_info_returns_copy_witness:
  "wf fetch_client \<and> fst (media_info mock_env (IdInt 5) True fetch_client) = Inr 1 \<and>
   (\<exists>pk c. media_pk (IdInt 5) = Inr pk \<and> medias_cache fetched_client pk = Some c \<and>
      1 \<noteq> c \<and> user (media_objs fetched_client ! 1) \<noteq> user (media_objs fetched_client ! c) \<and>
      media_value fetched_client 1 = media_value fetched_client c) \<and>
   wf fetched_client \<and> objs_kept fetch_client fetched_client \<and>
   medias_cache fetched_client 5 = Some 0 \<and>
   media_objs fetched_client =
     [\<lparr>m_pk = 5, product_type = ''feed'', user = 0, caption_text = []\<rparr>,
      \<lparr>m_pk = 5, product_type = ''feed'', user = 1, caption_text = []\<rparr>]"
proof -
  have w: "wf fetch_client" by (simp add: fetch_client_def wf_mock_client)
  have f: "fst (media_info mock_env (IdInt 5) True fetch_client) = Inr 1" by code_simp
  then have f': "media_info mock_env (IdInt 5) True fetch_client = (Inr 1, fetched_client)"
    by (simp add: prod_eq_iff fetched_client_def)
  have c: "medias_cache fetched_client 5 = Some 0" by code_simp
  have o: "media_objs fetched_client =
     [\<lparr>m_pk = 5, product_type = ''feed'', user = 0, caption_text = []\<rparr>,
      \<lparr>m_pk = 5, product_type = ''feed'', user = 1, caption_text = []\<rparr>]" by code_simp
  from media_info_returns_copy [OF w f'] w f c o show ?thesis by blast
qed

section \<open>Editing long-form video\<close>

lemma media_info_Inr_pk:
  "media_info env x uc s = (Inr r, s') \<Longrightarrow> \<exists>pk. media_pk x = Inr pk"
  by (cases "media_pk x") (auto simp: media_info_unfold)

lemma call_location_build_objs:
  "call_location_build env loc s = (r, s') \<Longrightarrow>
     media_objs s' = media_objs s \<and> user_objs s' = user_objs s \<and> medias_cache s' = medias_cache s"
  by (auto simp: call_location_build_def split: prod.splits)

lemma call_private_request_last:
  "last (calls (snd (call_private_request env p d s))) = PrivateRequest p d"
  "medias_cache (snd (call_private_request env p d s)) = medias_cache s"
  by (auto simp: call_private_request_def split: prod.splits)

lemma media_edit_igtv:
  assumes auth: "logged_in s"
    and mid: "media_id env x s = (Inr mid, s1)"
    and info: "media_info env (IdStr mid) True s1 = (Inr m, s2)"
    and loc: "call_location_build env location s2 = (Inr l, s3)"
    and igtv: "product_type (media_objs s2 ! m) = ''igtv''"
    and pk: "media_pk (IdStr mid) = Inr pk"
  shows "media_edit env x caption title usertags location s =
           call_private_request env (''media/'' @ mid @ ''/edit_media/'')
             (Some (with_default_data env
                (JDict [(''caption_text'', JStr (snd (igtv_title_caption title caption))),
                        (''title'', JStr (fst (igtv_title_caption title caption))),
                        (''igtv_ads_toggled_on'', JStr ''0'')]) (world s3)))
             (s3\<lparr>medias_cache := (medias_cache s3)(pk := None)\<rparr>)"
proof -
  from loc have objs: "media_objs s3 = media_objs s2"
    by (simp add: call_location_build_objs)
  from auth have a: "assert_user_id s = (Inr (), s)"
    by (simp add: assert_user_id_def)
  show ?thesis
    unfolding media_edit_def
    by (simp add: py_bind_def py_lift_def cache_pop_def a mid info loc igtv pk objs Let_def
        split: prod.splits)
qed

lemma igtv_title_caption_empty:
  "igtv_title_caption [] caption =
     (if newline \<in> set caption
      then (takeWhile (\<lambda>c. c \<noteq> newline) caption, tl (dropWhile (\<lambda>c. c \<noteq> newline) caption))
      else (take 75 caption, caption))"
  by (simp add: igtv_title_caption_def py_split1_def)

lemma mock_with_default_data: "with_default_data mock_env d w = d"
  by (simp add: mock_env_def)

lemma igtv_scenario:
  "logged_in igtv_client"
  "media_id mock_env (IdStr ''5_7'') igtv_client = (Inr ''5_7'', igtv_client)"
  "media_info mock_env (IdStr ''5_7'') True igtv_client = (Inr 1, igtv_fetched)"
  "call_location_build mock_env None igtv_fetched = (Inr ''{}'', igtv_built)"
  "product_type (media_objs igtv_fetched ! 1) = ''igtv''"
proof -
  show "logged_in igtv_client" by code_simp
  show "media_id mock_env (IdStr ''5_7'') igtv_client = (Inr ''5_7'', igtv_client)"
    by (simp add: media_id_def py_return_def)
  have "fst (media_info mock_env (IdStr ''5_7'') True igtv_client) = Inr 1" by code_simp
  then show "media_info mock_env (IdStr ''5_7'') True igtv_client = (Inr 1, igtv_fetched)"
    by (simp add: prod_eq_iff igtv_fetched_def)
  have "fst (call_location_build mock_env None igtv_fetched) = Inr ''{}''" by code_simp
  then show "call_location_build mock_env None igtv_fetched = (Inr ''{}'', igtv_built)"
    by (simp add: prod_eq_iff igtv_built_def)
  show "product_type (media_objs igtv_fetched ! 1) = ''igtv''" by code_simp
qed

text \<open>
  C9. \<open>media_edit\<close> on long-form video (\<open>product_type\<close> \<open>igtv\<close>) with an empty title: when
  the caption has a line break, the title submitted is the caption up to the first line
  break and the caption submitted is what follows it; when it has none, the title
  submitted is the first 75 characters of the caption and the caption is submitted
  whole.
\<close>

theorem igtv_edit_title_split:
  assumes "logged_in s"
    and "media_id env x s = (Inr mid, s1)"
    and "media_info env (IdStr mid) True s1 = (Inr m, s2)"
    and "call_location_build env location s2 = (Inr l, s3)"
    and "product_type (media_objs s2 ! m) = ''igtv''"
  shows "last (calls (snd (media_edit env x caption [] usertags location s))) =
           PrivateRequest (''media/'' @ mid @ ''/edit_media/'')
             (Some (with_default_data env
                (JDict [(''caption_text'',
                           JStr (if newline \<in> set caption
                                 then tl (dropWhile (\<lambda>c. c \<noteq> newline) caption)
                                 else caption)),
                        (''title'',
                           JStr (if newline \<in> set caption
                                 then takeWhile (\<lambda>c. c \<noteq> newline) caption
                                 else take 75 caption)),
                        (''igtv_ads_toggled_on'', JStr ''0'')]) (world s3)))"
proof -
  from assms(3) obtain pk where pk: "media_pk (IdStr mid) = Inr pk"
    using media_info_Inr_pk by blast
  show ?thesis
    by (simp add: media_edit_igtv [OF assms pk] call_private_request_last
        igtv_title_caption_empty)
qed

theorem igtv_edit_title_split_witness:
  "logged_in igtv_client \<and> product_type (media_objs igtv_fetched ! 1) = ''igtv'' \<and>
   last (calls (snd (media_edit mock_env (IdStr ''5_7'') title_body [] [] None igtv_client))) =
     PrivateRequest ''media/5_7/edit_media/''
       (Some (JDict [(''caption_text'', JStr ''Body text''), (''title'', JStr ''Title Line''),
                     (''igtv_ads_toggled_on'', JStr ''0'')])) \<and>
   last (calls (snd (media_edit mock_env (IdStr ''5_7'') (replicate 80 (CHR ''a'')) [] [] None
       igtv_client))) =
     PrivateRequest ''media/5_7/edit_media/''
       (Some (JDict [(''caption_text'', JStr (replicate 80 (CHR ''a''))),
                     (''title'', JStr (replicate 75 (CHR ''a''))),
                     (''igtv_ads_toggled_on'', JStr ''0'')]))"
proof -
  have a: "last (calls (snd (media_edit mock_env (IdStr ''5_7'') title_body [] [] None
      igtv_client))) =
     PrivateRequest ''media/5_7/edit_media/''
       (Some (JDict [(''caption_text'', JStr ''Body text''), (''title'', JStr ''Title Line''),
                     (''igtv_ads_toggled_on'', JStr ''0'')]))"
    using igtv_edit_title_split [OF igtv_scenario, of title_body "[]"]
    by (simp add: title_body_def newline_def mock_with_default_data)
  have n: "newline \<notin> set (replicate 80 (CHR ''a''))" by (simp add: newline_def)
  have b: "last (calls (snd (media_edit mock_env (IdStr ''5_7'') (replicate 80 (CHR ''a'')) [] []
      None igtv_client))) =
     PrivateRequest ''media/5_7/edit_media/''
       (Some (JDict [(''caption_text'', JStr (replicate 80 (CHR ''a''))),
                     (''title'', JStr (replicate 75 (CHR ''a''))),
                     (''igtv_ads_toggled_on'', JStr ''0'')]))"
    using igtv_edit_title_split [OF igtv_scenario, of "replicate 80 (CHR ''a'')" "[]"] n
    by (simp add: mock_with_default_data)
  from a b igtv_scenario(1,5) show ?thesis by blast
qed

text \<open>
  C10 (as amended). \<open>media_edit\<close> on long-form video, when it reaches its transport call,
  submits what \<open>with_default_data\<close> makes of a payload with the keys \<open>caption_text\<close>,
  \<open>title\<close> and \<open>igtv_ads_toggled_on\<close> only, built from the caption and the title. The
  whole run is the same for every list of user tags. The location is still passed to
  \<open>location_build\<close>; the string that comes back is not part of the request, so two
  locations for which \<open>location_build\<close> returns and leaves the same world give the same
  request.
\<close>

theorem igtv_edit_payload:
  assumes "logged_in s"
    and "media_id env x s = (Inr mid, s1)"
    and "media_info env (IdStr mid) True s1 = (Inr m, s2)"
    and "call_location_build env location s2 = (Inr l, s3)"
    and "product_type (media_objs s2 ! m) = ''igtv''"
  shows "last (calls (snd (media_edit env x caption title usertags location s))) =
           PrivateRequest (''media/'' @ mid @ ''/edit_media/'')
             (Some (with_default_data env
                (JDict [(''caption_text'', JStr (snd (igtv_title_caption title caption))),
                        (''title'', JStr (fst (igtv_title_caption title caption))),
                        (''igtv_ads_toggled_on'', JStr ''0'')]) (world s3))) \<and>
         media_edit env x caption title usertags location s =
           media_edit env x caption title [] location s \<and>
         (\<forall>location' l' s3'.
            call_location_build env location' s2 = (Inr l', s3') \<and> world s3' = world s3 \<longrightarrow>
              last (calls (snd (media_edit env x caption title usertags location' s))) =
              last (calls (snd (media_edit env x caption title usertags location s))))"
proof -
  from assms(3) obtain pk where pk: "media_pk (IdStr mid) = Inr pk"
    using media_info_Inr_pk by blast
  have a: "last (calls (snd (media_edit env x caption title usertags location s))) =
           PrivateRequest (''media/'' @ mid @ ''/edit_media/'')
             (Some (with_default_data env
                (JDict [(''caption_text'', JStr (snd (igtv_title_caption title caption))),
                        (''title'', JStr (fst (igtv_title_caption title caption))),
                        (''igtv_ads_toggled_on'', JStr ''0'')]) (world s3)))"
    by (simp add: media_edit_igtv [OF assms pk] call_private_request_last)
  have b: "media_edit env x caption title usertags location s =
           media_edit env x caption title [] location s"
    by (simp add: media_edit_igtv [OF assms pk])
  have c: "last (calls (snd (media_edit env x caption title usertags location' s))) =
           last (calls (snd (media_edit env x caption title usertags location s)))"
    if "call_location_build env location' s2 = (Inr l', s3') \<and> world s3' = world s3"
    for location' l' s3'
  proof -
    from that have lb: "call_location_build env location' s2 = (Inr l', s3')"
      and w: "world s3' = world s3" by simp_all
    show ?thesis
      by (simp add: media_edit_igtv [OF assms(1,2,3) lb assms(5) pk]
          media_edit_igtv [OF assms pk] call_private_request_last w)
  qed
  from a b c show ?thesis by blast
qed

theorem igtv_edit_payload_witness:
  "logged_in igtv_client \<and> product_type (media_objs igtv_fetched ! 1) = ''igtv'' \<and>
   last (calls (snd (media_edit mock_env (IdStr ''5_7'') ''text'' ''T'' some_usertags None
       igtv_client))) =
     PrivateRequest ''media/5_7/edit_media/''
       (Some (JDict [(''caption_text'', JStr ''text''), (''title'', JStr ''T''),
                     (''igtv_ads_toggled_on'', JStr ''0'')])) \<and>
   media_edit mock_env (IdStr ''5_7'') ''text'' ''T'' some_usertags None igtv_client =
     media_edit mock_env (IdStr ''5_7'') ''text'' ''T'' [] None igtv_client"
proof -
  note t = igtv_edit_payload [OF igtv_scenario, of "''text''" "''T''" some_usertags]
  from conjunct1 [OF t]
  have "last (calls (snd (media_edit mock_env (IdStr ''5_7'') ''text'' ''T''
      some_usertags None igtv_client))) =
     PrivateRequest ''media/5_7/edit_media/''
       (Some (JDict [(''caption_text'', JStr ''text''), (''title'', JStr ''T''),
                     (''igtv_ads_toggled_on'', JStr ''0'')]))"
    by (simp add: igtv_title_caption_def mock_with_default_data)
  with t igtv_scenario(1,5) show ?thesis by blast
qed

text \<open>
  C10 as stated fails on both counts. Where \<open>with_default_data\<close> adds a default field,
  the payload submitted has that key besides the three; and where \<open>location_build\<close>
  raises for the location given, \<open>media_edit\<close> raises and submits no request, while with
  no location it submits one.
\<close>

theorem igtv_edit_defaults_and_location:
  "last (calls (snd (media_edit defaults_env (IdStr ''5_7'') ''text'' ''T'' [] None igtv_client))) =
     PrivateRequest ''media/5_7/edit_media/''
       (Some (JDict [(''_uuid'', JStr ''uuid''), (''caption_text'', JStr ''text''),
                     (''title'', JStr ''T''), (''igtv_ads_toggled_on'', JStr ''0'')])) \<and>
   fst (media_edit defaults_env (IdStr ''5_7'') ''text'' ''T'' [] (Some JNull) igtv_client) =
     Inl (ClientError ''no such place'') \<and>
   calls (snd (media_edit defaults_env (IdStr ''5_7'') ''text'' ''T'' [] (Some JNull) igtv_client)) =
     [PublicGraphqlRequest (gql_variables ''5'') ''477b65a610463740ccdb83135b2014db'',
      LocationBuild (Some JNull)]"
  by code_simp

section \<open>Eviction on mutation\<close>

lemma cache_miss_fetches:
  assumes "media_pk y = Inr pk" and "medias_cache s pk = None"
  shows "transport_count s < transport_count (snd (media_info env y uc s))"
proof -
  obtain r0 s0 where fb: "fallback_policy env pk s = (r0, s0)"
    by (cases "fallback_policy env pk s")
  from always_countsD [OF always_counts_fallback fb]
  have lt: "transport_count s < transport_count s0" .
  have "transport_count (snd (media_info env y uc s)) = transport_count s0"
    using assms fb
    by (cases r0) (simp_all add: media_info_miss deepcopy_def Let_def transport_count_def)
  with lt show ?thesis by simp
qed

lemma media_edit_reaches_transport:
  assumes auth: "logged_in s"
    and mid: "media_id env x s = (Inr mid, s1)"
    and info: "media_info env (IdStr mid) True s1 = (Inr m, s2)"
    and loc: "call_location_build env location s2 = (Inr l, s3)"
    and pk: "media_pk (IdStr mid) = Inr pk"
  shows "\<exists>data. media_edit env x caption title usertags location s =
           call_private_request env (''media/'' @ mid @ ''/edit_media/'') (Some data)
             (s3\<lparr>medias_cache := (medias_cache s3)(pk := None)\<rparr>)"
proof -
  from auth have a: "assert_user_id s = (Inr (), s)"
    by (simp add: assert_user_id_def)
  have "media_edit env x caption title usertags location s =
      call_private_request env (''media/'' @ mid @ ''/edit_media/'')
        (Some (with_default_data env
           (if product_type (media_objs s3 ! m) = ''igtv'' then
              JDict [(''caption_text'', JStr (snd (igtv_title_caption title caption))),
                     (''title'', JStr (fst (igtv_title_caption title caption))),
                     (''igtv_ads_toggled_on'', JStr ''0'')]
            else
              JDict [(''caption_text'', JStr caption),
                     (''container_module'', JStr ''edit_media_info''),
                     (''feed_position'', JStr ''0''),
                     (''location'', JStr l),
                     (''usertags'',
                        JStr (json_dumps env (JDict [(''in'', JList (map usertag_json usertags))]))),
                     (''is_carousel_bumped_post'', JStr ''false'')])
           (world s3)))
        (s3\<lparr>medias_cache := (medias_cache s3)(pk := None)\<rparr>)"
    unfolding media_edit_def
    by (simp add: py_bind_def py_lift_def cache_pop_def a mid info loc pk Let_def
        split: prod.splits)
  then show ?thesis by blast
qed

lemma media_delete_outcome:
  assumes auth: "logged_in s"
    and mid: "media_id env x s = (Inr mid, s1)"
    and pk: "media_pk (IdStr mid) = Inr pk"
    and req: "call_private_request env (''media/'' @ mid @ ''/delete/'')
                (Some (with_default_data env (JDict [(''media_id'', JStr mid)]) (world s1))) s1
              = (r, s2)"
  shows "media_delete env x s =
           (case r of
              Inl e \<Rightarrow> (Inl e, s2)
            | Inr result \<Rightarrow>
                (py_get result ''did_delete'',
                 s2\<lparr>medias_cache := (medias_cache s2)(pk := None)\<rparr>))"
proof -
  from auth have a: "assert_user_id s = (Inr (), s)"
    by (simp add: assert_user_id_def)
  show ?thesis
    unfolding media_delete_def using req
    by (simp add: py_bind_def py_lift_def cache_pop_def a mid pk split: sum.splits)
qed

lemma media_info_cache_effect:
  assumes run: "media_info env z True s = (r, s')" and pk: "media_pk z = Inr pk"
  shows "(\<forall>k. k \<noteq> pk \<longrightarrow> medias_cache s' k = medias_cache s k) \<and>
         (medias_cache s pk \<noteq> None \<longrightarrow> medias_cache s' = medias_cache s)"
proof (cases "medias_cache s pk")
  case (Some c)
  with run pk have "deepcopy c s = (r, s')" by (simp add: media_info_hit)
  then show ?thesis by (simp add: deepcopy_result)
next
  case None
  obtain r0 s0 where fb: "fallback_policy env pk s = (r0, s0)"
    by (cases "fallback_policy env pk s")
  from keeps_cacheD [OF keeps_cache_fallback fb]
  have c0: "medias_cache s0 = medias_cache s" .
  show ?thesis
  proof (cases r0)
    case (Inl e)
    with run pk None fb have "s' = s0" by (simp add: media_info_miss)
    with c0 None show ?thesis by simp
  next
    case (Inr m)
    with run pk None fb
    have "deepcopy m (s0\<lparr>medias_cache := (medias_cache s0)(pk \<mapsto> m)\<rparr>) = (r, s')"
      by (simp add: media_info_miss)
    from deepcopy_result(4) [OF this] c0 None show ?thesis by simp
  qed
qed

lemma media_id_cache_effect:
  assumes mid: "media_id env x s = (Inr mid, s1)" and pk: "media_pk (IdStr mid) = Inr pk"
  shows "(\<forall>k. k \<noteq> pk \<longrightarrow> medias_cache s1 k = medias_cache s k) \<and>
         (medias_cache s pk \<noteq> None \<or> CHR ''_'' \<in> set (py_str x) \<longrightarrow>
            medias_cache s1 = medias_cache s)"
proof (cases "CHR ''_'' \<in> set (py_str x)")
  case True
  with mid have "s1 = s" by (simp add: media_id_def Let_def py_return_def)
  then show ?thesis by simp
next
  case False
  with mid obtain r where info: "media_info env (IdStr (py_str x)) True s = (r, s1)"
    and n: "\<exists>n. mid = py_str x @ CHR ''_'' # py_str_int n"
    by (auto simp: media_id_def media_user_def Let_def prog_defs
        split: if_splits prod.splits sum.splits)
  from n False pk have "py_int (py_str x) = Inr pk"
    by (auto simp: media_pk_composite)
  with False have "media_pk (IdStr (py_str x)) = Inr pk" by (simp add: media_pk_def)
  from media_info_cache_effect [OF info this] False show ?thesis by simp
qed

text \<open>
  C2 (as amended). Let \<open>media_id\<close> resolve the identifier to a composite id with primary
  key \<open>pk\<close>. \<open>media_edit\<close>, once the metadata is read and the location built, removes the
  cache entry of \<open>pk\<close> and then issues its transport call: whether that call returns or
  raises, no entry is left under \<open>pk\<close>. \<open>media_delete\<close> removes the entry after its
  transport call has returned; when the call raises, \<open>media_delete\<close> raises the same error
  and evicts nothing: the cache is then as the resolution of the identifier left it.
  That resolution changes the cache at most under \<open>pk\<close>, and not at all when the
  identifier has the separator or \<open>pk\<close> had an entry; for a bare key with no entry the
  owner lookup stores one. Where the entry is gone, the next \<open>media_info\<close> on that key
  invokes the transport again.
\<close>

theorem evict_on_mutation:
  assumes auth: "logged_in s"
    and mid: "media_id env x s = (Inr mid, s1)"
    and pk: "media_pk (IdStr mid) = Inr pk"
    and y: "media_pk y = Inr pk"
  shows "(\<forall>m s2 l s3.
            media_info env (IdStr mid) True s1 = (Inr m, s2) \<and>
            call_location_build env location s2 = (Inr l, s3) \<longrightarrow>
              (\<exists>data. media_edit env x caption title usertags location s =
                 call_private_request env (''media/'' @ mid @ ''/edit_media/'') (Some data)
                   (s3\<lparr>medias_cache := (medias_cache s3)(pk := None)\<rparr>)) \<and>
              medias_cache (snd (media_edit env x caption title usertags location s)) pk = None \<and>
              transport_count (snd (media_edit env x caption title usertags location s)) <
                transport_count (snd (media_info env y True
                  (snd (media_edit env x caption title usertags location s))))) \<and>
         (\<forall>result s2.
            call_private_request env (''media/'' @ mid @ ''/delete/'')
              (Some (with_default_data env (JDict [(''media_id'', JStr mid)]) (world s1))) s1
              = (Inr result, s2) \<longrightarrow>
              media_delete env x s =
                (py_get result ''did_delete'',
                 s2\<lparr>medias_cache := (medias_cache s2)(pk := None)\<rparr>) \<and>
              medias_cache (snd (media_delete env x s)) pk = None \<and>
              transport_count (snd (media_delete env x s)) <
                transport_count (snd (media_info env y True (snd (media_delete env x s))))) \<and>
         (\<forall>e s2.
            call_private_request env (''media/'' @ mid @ ''/delete/'')
              (Some (with_default_data env (JDict [(''media_id'', JStr mid)]) (world s1))) s1
              = (Inl e, s2) \<longrightarrow>
              media_delete env x s = (Inl e, s2) \<and> medias_cache s2 = medias_cache s1) \<and>
         (\<forall>k. k \<noteq> pk \<longrightarrow> medias_cache s1 k = medias_cache s k) \<and>
         (medias_cache s pk \<noteq> None \<or> CHR ''_'' \<in> set (py_str x) \<longrightarrow>
            medias_cache s1 = medias_cache s)"
proof (intro conjI allI impI)
  fix m s2 l s3
  assume h: "media_info env (IdStr mid) True s1 = (Inr m, s2) \<and>
            call_location_build env location s2 = (Inr l, s3)"
  let ?e = "media_edit env x caption title usertags location s"
  from media_edit_reaches_transport [OF auth mid conjunct1 [OF h] conjunct2 [OF h] pk]
  show ex: "\<exists>data. ?e =
      call_private_request env (''media/'' @ mid @ ''/edit_media/'') (Some data)
        (s3\<lparr>medias_cache := (medias_cache s3)(pk := None)\<rparr>)" .
  then show none: "medias_cache (snd ?e) pk = None"
    by (auto simp: call_private_request_last)
  show "transport_count (snd ?e) < transport_count (snd (media_info env y True (snd ?e)))"
    by (rule cache_miss_fetches [OF y none])
next
  fix result s2
  assume req: "call_private_request env (''media/'' @ mid @ ''/delete/'')
              (Some (with_default_data env (JDict [(''media_id'', JStr mid)]) (world s1))) s1
              = (Inr result, s2)"
  let ?d = "media_delete env x s"
  from media_delete_outcome [OF auth mid pk req]
  show eq: "?d = (py_get result ''did_delete'',
                 s2\<lparr>medias_cache := (medias_cache s2)(pk := None)\<rparr>)" by simp
  then show none: "medias_cache (snd ?d) pk = None" by simp
  show "transport_count (snd ?d) < transport_count (snd (media_info env y True (snd ?d)))"
    by (rule cache_miss_fetches [OF y none])
next
  fix e s2
  assume req: "call_private_request env (''media/'' @ mid @ ''/delete/'')
              (Some (with_default_data env (JDict [(''media_id'', JStr mid)]) (world s1))) s1
              = (Inl e, s2)"
  from media_delete_outcome [OF auth mid pk req]
  show "media_delete env x s = (Inl e, s2)" by simp
  from req show "medias_cache s2 = medias_cache s1"
    by (auto simp: call_private_request_def split: prod.splits)
next
  fix k
  assume "k \<noteq> pk"
  with media_id_cache_effect [OF mid pk] show "medias_cache s1 k = medias_cache s k" by blast
next
  assume "medias_cache s pk \<noteq> None \<or> CHR ''_'' \<in> set (py_str x)"
  with media_id_cache_effect [OF mid pk] show "medias_cache s1 = medias_cache s" by blast
qed

theorem evict_on_mutation_witness:
  "logged_in edit_fail_client \<and>
   fst (media_edit mock_env (IdStr ''5_7'') ''new'' [] [] None edit_fail_client) =
     Inl (ClientError ''oops'') \<and>
   medias_cache (snd (media_edit mock_env (IdStr ''5_7'') ''new'' [] [] None edit_fail_client)) 5
     = None \<and>
   transport_count (snd (media_edit mock_env (IdStr ''5_7'') ''new'' [] [] None edit_fail_client))
     < transport_count (snd (media_info mock_env (IdInt 5) True
         (snd (media_edit mock_env (IdStr ''5_7'') ''new'' [] [] None edit_fail_client)))) \<and>
   logged_in delete_ok_client \<and> medias_cache delete_ok_client 5 = Some 0 \<and>
   fst (media_delete mock_env (IdStr ''5_7'') delete_ok_client) = Inr (JBool True) \<and>
   medias_cache (snd (media_delete mock_env (IdStr ''5_7'') delete_ok_client)) 5 = None \<and>
   transport_count (snd (media_delete mock_env (IdStr ''5_7'') delete_ok_client))
     < transport_count (snd (media_info mock_env (IdInt 5) True
         (snd (media_delete mock_env (IdStr ''5_7'') delete_ok_client))))"
proof -
  have pk: "media_pk (IdStr ''5_7'') = Inr 5" by code_simp
  have y: "media_pk (IdInt 5) = Inr 5" by code_simp
  have auth: "logged_in edit_fail_client" by code_simp
  have mid: "media_id mock_env (IdStr ''5_7'') edit_fail_client = (Inr ''5_7'', edit_fail_client)"
    by (simp add: media_id_def py_return_def)
  have "fst (media_info mock_env (IdStr ''5_7'') True edit_fail_client) = Inr 1" by code_simp
  then have info: "media_info mock_env (IdStr ''5_7'') True edit_fail_client =
      (Inr 1, edit_fail_fetched)"
    by (simp add: prod_eq_iff edit_fail_fetched_def)
  have "fst (call_location_build mock_env None edit_fail_fetched) = Inr ''{}''" by code_simp
  then have loc: "call_location_build mock_env None edit_fail_fetched = (Inr ''{}'', edit_fail_built)"
    by (simp add: prod_eq_iff edit_fail_built_def)
  have r: "fst (media_edit mock_env (IdStr ''5_7'') ''new'' [] [] None edit_fail_client) =
     Inl (ClientError ''oops'')" by code_simp
  from evict_on_mutation [OF auth mid pk y, where location = None and caption = "''new''"
      and title = "[]" and usertags = "[]"] info loc
  have e: "medias_cache (snd (media_edit mock_env (IdStr ''5_7'') ''new'' [] [] None
      edit_fail_client)) 5 = None \<and>
   transport_count (snd (media_edit mock_env (IdStr ''5_7'') ''new'' [] [] None edit_fail_client))
     < transport_count (snd (media_info mock_env (IdInt 5) True
         (snd (media_edit mock_env (IdStr ''5_7'') ''new'' [] [] None edit_fail_client))))"
    by blast
  have auth': "logged_in delete_ok_client" by code_simp
  have c: "medias_cache delete_ok_client 5 = Some 0" by code_simp
  have mid': "media_id mock_env (IdStr ''5_7'') delete_ok_client = (Inr ''5_7'', delete_ok_client)"
    by (simp add: media_id_def py_return_def)
  let ?q = "call_private_request mock_env (''media/'' @ ''5_7'' @ ''/delete/'')
      (Some (with_default_data mock_env (JDict [(''media_id'', JStr ''5_7'')])
         (world delete_ok_client))) delete_ok_client"
  have "fst ?q = Inr (JDict [(''did_delete'', JBool True)])" by code_simp
  then have req: "?q = (Inr (JDict [(''did_delete'', JBool True)]), snd ?q)"
    by (simp add: prod_eq_iff)
  have r': "fst (media_delete mock_env (IdStr ''5_7'') delete_ok_client) = Inr (JBool True)"
    by code_simp
  from evict_on_mutation [OF auth' mid' pk y] req
  have d: "medias_cache (snd (media_delete mock_env (IdStr ''5_7'') delete_ok_client)) 5 = None \<and>
   transport_count (snd (media_delete mock_env (IdStr ''5_7'') delete_ok_client))
     < transport_count (snd (media_info mock_env (IdInt 5) True
         (snd (media_delete mock_env (IdStr ''5_7'') delete_ok_client))))"
    by blast
  from auth r e auth' c r' d show ?thesis by blast
qed

lemma failed_delete_bare_key:
  "medias_cache bare_fail_client 5 = None \<and>
   fst (media_delete mock_env (IdStr ''5'') bare_fail_client) = Inl (ClientError ''oops'') \<and>
   medias_cache (snd (media_delete mock_env (IdStr ''5'') bare_fail_client)) 5 = Some 0"
  by code_simp

text \<open>
  C2 as stated fails for \<open>media_delete\<close>: when the transport call raises, the entry cached
  before is still there, and the next \<open>media_info\<close> is served from the cache with no call.
\<close>

theorem failed_delete_keeps_entry:
  "medias_cache delete_fail_client 5 = Some 0 \<and>
   fst (media_delete mock_env (IdStr ''5_7'') delete_fail_client) = Inl (ClientError ''oops'') \<and>
   medias_cache (snd (media_delete mock_env (IdStr ''5_7'') delete_fail_client)) 5 = Some 0 \<and>
   fst (media_info mock_env (IdStr ''5_7'') True
          (snd (media_delete mock_env (IdStr ''5_7'') delete_fail_client))) = Inr 2 \<and>
   calls (snd (media_info mock_env (IdStr ''5_7'') True
          (snd (media_delete mock_env (IdStr ''5_7'') delete_fail_client)))) =
     calls (snd (media_delete mock_env (IdStr ''5_7'') delete_fail_client))"
  by code_simp

section \<open>Integers and their decimal text\<close>

text \<open>
  \<open>int(str(n))\<close> is \<open>n\<close>: an integer primary key passes through \<open>media_pk\<close> unchanged, as
  it does each time \<open>media_info\<close> hands the key to a strategy.
\<close>

lemma digit_char_code: "d < 10 \<Longrightarrow> (of_char (digit_char d) :: nat) = 48 + d"
  by (simp add: digit_char_def)

lemma digit_char_decimal: "d < 10 \<Longrightarrow> py_isdecimal (digit_char d)"
  by (simp add: py_isdecimal_def digit_char_code)

lemma digit_val_digit_char: "d < 10 \<Longrightarrow> digit_val (digit_char d) = int d"
  by (simp add: digit_val_def digit_char_code)

lemma decimal_not_special:
  assumes "py_isdecimal c"
  shows "\<not> py_isspace c" and "c \<noteq> CHR ''_''" and "c \<noteq> CHR ''-''" and "c \<noteq> CHR ''+''"
  using assms by (auto simp: py_isdecimal_def py_isspace_def)

lemma digits_decimal: "list_all py_isdecimal (digits_of_nat n) \<and> digits_of_nat n \<noteq> []"
proof (induction n rule: digits_of_nat.induct)
  case (1 n)
  show ?case
  proof (cases "n < 10")
    case True
    then show ?thesis by (subst (1 2) digits_of_nat.simps) (simp add: digit_char_decimal)
  next
    case False
    with 1 show ?thesis
      by (subst (1 2) digits_of_nat.simps) (simp add: digit_char_decimal)
  qed
qed

lemma literal_ok_decimals: "list_all py_isdecimal ds \<Longrightarrow> ds \<noteq> [] \<Longrightarrow> int_literal_ok ds"
  by (induction ds rule: int_literal_ok.induct) (auto dest: decimal_not_special(2))

lemma literal_val_snoc:
  "c \<noteq> CHR ''_'' \<Longrightarrow> int_literal_val (ds @ [c]) = 10 * int_literal_val ds + digit_val c"
  by (simp add: int_literal_val_def)

lemma digits_val: "int_literal_val (digits_of_nat n) = int n"
proof (induction n rule: digits_of_nat.induct)
  case (1 n)
  show ?case
  proof (cases "n < 10")
    case True
    then show ?thesis
      using digit_char_not_sep [of n]
      by (subst digits_of_nat.simps) (simp add: int_literal_val_def digit_val_digit_char)
  next
    case False
    have d: "digit_char (n mod 10) \<noteq> CHR ''_''"
      by (rule decimal_not_special(2)) (simp add: digit_char_decimal)
    from False 1 have ih: "int_literal_val (digits_of_nat (n div 10)) = int (n div 10)" by simp
    have ar: "10 * int (n div 10) + int (n mod 10) = int n"
      by (simp add: zdiv_int zmod_int)
    have dv: "digit_val (digit_char (n mod 10)) = int (n mod 10)"
      by (rule digit_val_digit_char) simp
    have eq: "digits_of_nat n = digits_of_nat (n div 10) @ [digit_char (n mod 10)]"
      using False by (subst digits_of_nat.simps) simp
    have "int_literal_val (digits_of_nat n) =
        int_literal_val (digits_of_nat (n div 10) @ [digit_char (n mod 10)])"
      by (simp only: eq)
    also have "\<dots> = 10 * int_literal_val (digits_of_nat (n div 10)) +
        digit_val (digit_char (n mod 10))"
      by (rule literal_val_snoc [OF d])
    also have "\<dots> = 10 * int (n div 10) + int (n mod 10)" by (simp only: ih dv)
    also have "\<dots> = int n" by (rule ar)
    finally show ?thesis .
  qed
qed

lemma strip_no_space:
  assumes "s \<noteq> []" and "\<not> py_isspace (hd s)" and "\<not> py_isspace (last s)"
  shows "strip s = s"
proof -
  from assms have "dropWhile py_isspace s = s" by (cases s) simp_all
  moreover from assms have "dropWhile py_isspace (rev s) = rev s"
    by (cases "rev s") (simp_all add: hd_rev)
  ultimately show ?thesis by (simp add: strip_def)
qed

lemma py_int_digits: "py_int (digits_of_nat n) = Inr (int n)"
proof -
  let ?ds = "digits_of_nat n"
  from digits_decimal [of n] have all: "list_all py_isdecimal ?ds" and ne: "?ds \<noteq> []" by simp_all
  from all ne have h: "py_isdecimal (hd ?ds)" and l: "py_isdecimal (last ?ds)"
    by (simp_all add: list_all_iff)
  have s: "strip ?ds = ?ds"
    using ne h l by (intro strip_no_space) (simp_all add: decimal_not_special(1))
  obtain c r where cr: "?ds = c # r" using ne by (cases ?ds) auto
  with h have "c \<noteq> CHR ''-''" "c \<noteq> CHR ''+''" by (simp_all add: decimal_not_special)
  with cr s literal_ok_decimals [OF all ne] digits_val [of n] show ?thesis
    by (simp add: py_int_def)
qed

lemma py_int_py_str_int: "py_int (py_str_int n) = Inr n"
proof (cases "n < 0")
  case False
  then show ?thesis by (simp add: py_str_int_def py_int_digits)
next
  case True
  let ?ds = "digits_of_nat (nat (- n))"
  from digits_decimal [of "nat (- n)"]
  have all: "list_all py_isdecimal ?ds" and ne: "?ds \<noteq> []" by simp_all
  from all ne have l: "py_isdecimal (last ?ds)" by (simp add: list_all_iff)
  have sp: "\<not> py_isspace (CHR ''-'')" by (simp add: py_isspace_def)
  from l have "\<not> py_isspace (last ?ds)" by (rule decimal_not_special(1))
  with ne sp have "strip (CHR ''-'' # ?ds) = CHR ''-'' # ?ds"
    by (intro strip_no_space) simp_all
  with True literal_ok_decimals [OF all ne] digits_val [of "nat (- n)"] show ?thesis
    by (simp add: py_int_def py_str_int_def)
qed

lemma media_pk_int: "media_pk (IdInt n) = Inr n"
  by (simp add: media_pk_def sep_notin_py_str_int py_int_py_str_int)

end
